theory Spec2Isabelle
  imports Complex_Main
begin

section \<open>Product records (src/models/Product.ts)\<close>

text \<open>
  Timestamps (\<open>Date\<close>) are milliseconds since the epoch. Every evaluation of
  \<open>new Date()\<close> in the source is an explicit argument of the function that evaluates it,
  one argument per evaluation, in evaluation order.
  An \<open>ObjectId\<close> is represented by the 24 digit lower case hexadecimal string that
  \<open>toString\<close> prints.
  An optional field (\<open>description?\<close>) is an option; \<open>undefined\<close> is \<open>None\<close>.
  \<open>count\<close> is a JavaScript number; the model covers the integers, negative ones included.
\<close>

type_synonym date = nat
type_synonym ObjectId = string

text \<open>\<open>Omit<Product, 'id'>\<close>: the transfer shape without its identifier.\<close>

record ProductInput =
  name :: string
  code :: string
  count :: int
  description :: "string option"
  createdAt :: "date option"
  updatedAt :: "date option"

text \<open>\<open>Product\<close>: the transfer shape. The field \<open>id\<close> is written \<open>id_p\<close>.\<close>

record Product = ProductInput +
  id_p :: string

text \<open>\<open>ProductDocument\<close>: the storage shape; \<open>_id\<close> is written \<open>doc_id\<close>.\<close>

record ProductDocument =
  doc_id :: "ObjectId option"
  doc_name :: string
  doc_code :: string
  doc_count :: int
  doc_description :: "string option"
  doc_createdAt :: date
  doc_updatedAt :: date

text \<open>
  \<open>documentToProduct\<close>: \<open>doc._id!.toString()\<close> throws a TypeError on a document
  without \<open>_id\<close>; the throw is \<open>None\<close>.
\<close>

definition documentToProduct :: "ProductDocument \<Rightarrow> Product option" where
  "documentToProduct doc =
     (case doc_id doc of
        None \<Rightarrow> None
      | Some oid \<Rightarrow>
          Some \<lparr> name = doc_name doc, code = doc_code doc, count = doc_count doc,
                 description = doc_description doc,
                 createdAt = Some (doc_createdAt doc), updatedAt = Some (doc_updatedAt doc),
                 id_p = oid \<rparr>)"

text \<open>
  \<open>productToDocument\<close>: \<open>createdAt: product.createdAt || new Date()\<close> (a Date object is
  always truthy) and \<open>updatedAt: new Date()\<close>; \<open>t1\<close> and \<open>t2\<close> are the two clock readings.
\<close>

definition productToDocument :: "'a ProductInput_scheme \<Rightarrow> date \<Rightarrow> date \<Rightarrow> ProductDocument" where
  "productToDocument product t1 t2 =
     \<lparr> doc_id = None, doc_name = name product, doc_code = code product,
       doc_count = count product, doc_description = description product,
       doc_createdAt = (case createdAt product of Some c \<Rightarrow> c | None \<Rightarrow> t1),
       doc_updatedAt = t2 \<rparr>"

section \<open>Derived stock status (src/components/InventoryList.tsx, the status cell)\<close>

datatype StockStatus = OutOfStock | LowStock | InStock

text \<open>
  \<open>product.count === 0 ? "Stok Yok" : product.count <= 5 ? "Dusuk Stok" : "Stokta"\<close>
\<close>

definition stockStatus :: "'a ProductInput_scheme \<Rightarrow> StockStatus" where
  "stockStatus product =
     (if count product = 0 then OutOfStock
      else if count product \<le> 5 then LowStock
      else InStock)"

section \<open>The products collection (the document store behind the route handlers)\<close>

text \<open>
  The collection is the list of its documents in insertion order. The driver calls the
  handlers make are modelled on that list: \<open>findOne\<close> returns the first match,
  \<open>insertOne\<close> stores the document under the \<open>_id\<close> the driver generated
  (the argument \<open>oid\<close>) and fails with a duplicate key error when that \<open>_id\<close> is taken,
  \<open>findOneAndUpdate\<close> with \<open>$set\<close> overwrites the listed fields of the first match and
  returns it (\<open>returnDocument: 'after'\<close>), \<open>deleteOne\<close> removes the first match.
  A field set to \<open>undefined\<close> is stored as null; both are \<open>None\<close>.
\<close>

type_synonym Collection = "ProductDocument list"

datatype DriverError = DuplicateKey

definition isHexDigit :: "char \<Rightarrow> bool" where
  "isHexDigit c = (c \<in> set ''0123456789abcdefABCDEF'')"

text \<open>\<open>ObjectId.isValid\<close> on strings of hexadecimal digits: 24 of them.\<close>

definition ObjectId_isValid :: "string \<Rightarrow> bool" where
  "ObjectId_isValid s = (length s = 24 \<and> list_all isHexDigit s)"

definition lowerHex :: "char \<Rightarrow> char" where
  "lowerHex c =
     (if c = CHR ''A'' then CHR ''a'' else if c = CHR ''B'' then CHR ''b''
      else if c = CHR ''C'' then CHR ''c'' else if c = CHR ''D'' then CHR ''d''
      else if c = CHR ''E'' then CHR ''e'' else if c = CHR ''F'' then CHR ''f'' else c)"

text \<open>\<open>new ObjectId(id)\<close>: the identifier's bytes, printed by \<open>toString\<close> in lower case.\<close>

definition new_ObjectId :: "string \<Rightarrow> ObjectId" where
  "new_ObjectId s = map lowerHex s"

definition findOne_code :: "Collection \<Rightarrow> string \<Rightarrow> ProductDocument option" where
  "findOne_code docs c = find (\<lambda>d. doc_code d = c) docs"

definition findOne_id :: "Collection \<Rightarrow> ObjectId \<Rightarrow> ProductDocument option" where
  "findOne_id docs oid = find (\<lambda>d. doc_id d = Some oid) docs"

definition insertOne :: "Collection \<Rightarrow> ObjectId \<Rightarrow> ProductDocument \<Rightarrow> DriverError + Collection" where
  "insertOne docs oid doc =
     (case findOne_id docs oid of
        Some _ \<Rightarrow> Inl DuplicateKey
      | None \<Rightarrow> Inr (docs @ [doc\<lparr>doc_id := Some oid\<rparr>]))"

text \<open>\<open>{ $set: updateDoc }\<close>: the six fields of \<open>updateDoc\<close> replace the document's.\<close>

definition dollar_set :: "ProductDocument \<Rightarrow> ProductDocument \<Rightarrow> ProductDocument" where
  "dollar_set updateDoc d =
     d\<lparr> doc_name := doc_name updateDoc, doc_code := doc_code updateDoc,
        doc_count := doc_count updateDoc, doc_description := doc_description updateDoc,
        doc_createdAt := doc_createdAt updateDoc, doc_updatedAt := doc_updatedAt updateDoc \<rparr>"

fun findOneAndUpdate ::
  "Collection \<Rightarrow> ObjectId \<Rightarrow> ProductDocument \<Rightarrow> ProductDocument option \<times> Collection" where
  "findOneAndUpdate [] oid updateDoc = (None, [])"
| "findOneAndUpdate (d # ds) oid updateDoc =
     (if doc_id d = Some oid then (Some (dollar_set updateDoc d), dollar_set updateDoc d # ds)
      else (case findOneAndUpdate ds oid updateDoc of (r, ds') \<Rightarrow> (r, d # ds')))"

text \<open>\<open>deleteOne\<close>: the pair of \<open>deletedCount\<close> and the collection left.\<close>

fun deleteOne :: "Collection \<Rightarrow> ObjectId \<Rightarrow> nat \<times> Collection" where
  "deleteOne [] oid = (0, [])"
| "deleteOne (d # ds) oid =
     (if doc_id d = Some oid then (1, ds)
      else (case deleteOne ds oid of (n, ds') \<Rightarrow> (n, d # ds')))"

section \<open>Route handlers (src/app/api/products/route.ts)\<close>

text \<open>
  A response is its HTTP status and its envelope: \<open>{success: true, data}\<close> (for DELETE,
  \<open>{success: true, message}\<close>) or \<open>{success: false, error}\<close>. A handler returns its
  response and the collection it leaves. An exception inside a handler's \<open>try\<close> is the
  branch to its \<open>catch\<close>, the 500 response.
\<close>

datatype 'a Envelope = Success 'a | Failure string

datatype 'a Response = Json (status: nat) (envelope: "'a Envelope")

text \<open>
  The body of a POST request as the handler destructures it: a missing field is
  \<open>undefined\<close>, here \<open>None\<close>.
\<close>

record RequestBody =
  body_name :: "string option"
  body_code :: "string option"
  body_count :: "int option"
  body_description :: "string option"

text \<open>\<open>!x\<close> for an optional string: \<open>undefined\<close> and the empty string are falsy.\<close>

definition falsy :: "string option \<Rightarrow> bool" where
  "falsy x = (case x of None \<Rightarrow> True | Some s \<Rightarrow> s = [])"

text \<open>
  \<open>POST\<close>: \<open>oid\<close> is the \<open>_id\<close> the driver generates for \<open>insertOne\<close>, \<open>t1\<close>, \<open>t2\<close>
  are the clock readings of \<open>productToDocument\<close>.
\<close>

definition POST :: "Collection \<Rightarrow> RequestBody \<Rightarrow> ObjectId \<Rightarrow> date \<Rightarrow> date \<Rightarrow> Product Response \<times> Collection" where
  "POST docs body oid t1 t2 =
     (if falsy (body_name body) \<or> falsy (body_code body) \<or> body_count body = None
      then (Json 400 (Failure ''Name, code, and count are required''), docs)
      else
        (case findOne_code docs (the (body_code body)) of
           Some existingProduct \<Rightarrow> (Json 400 (Failure ''Product code already exists''), docs)
         | None \<Rightarrow>
             (let productDoc =
                    productToDocument
                      \<lparr> name = the (body_name body), code = the (body_code body),
                        count = the (body_count body), description = body_description body,
                        createdAt = None, updatedAt = None \<rparr> t1 t2
              in case insertOne docs oid productDoc of
                   Inl e \<Rightarrow> (Json 500 (Failure ''Failed to create product''), docs)
                 | Inr docs' \<Rightarrow>
                     (case findOne_id docs' oid of
                        None \<Rightarrow> (Json 500 (Failure ''Failed to create product''), docs')
                      | Some newProduct \<Rightarrow>
                          (case documentToProduct newProduct of
                             None \<Rightarrow> (Json 500 (Failure ''Failed to create product''), docs')
                           | Some p \<Rightarrow> (Json 200 (Success p), docs'))))))"

text \<open>
  \<open>PUT\<close>: the body is taken at its declared type, the \<open>name\<close>, \<open>code\<close>, \<open>count\<close> and
  \<open>description\<close> of an \<open>Omit<Product, 'id'>\<close>, which is what the client sends; the handler
  reads no other field of it, so \<open>productToDocument\<close> gets no \<open>createdAt\<close>.
  \<open>t1\<close>, \<open>t2\<close> are the clock readings of \<open>productToDocument\<close>, \<open>t3\<close> the one of
  \<open>updatedAt: new Date()\<close> in \<open>updateDoc\<close>.
\<close>

definition PUT ::
  "Collection \<Rightarrow> string \<Rightarrow> 'a ProductInput_scheme \<Rightarrow> date \<Rightarrow> date \<Rightarrow> date \<Rightarrow> Product Response \<times> Collection" where
  "PUT docs ident body t1 t2 t3 =
     (if \<not> ObjectId_isValid ident
      then (Json 400 (Failure ''Invalid product ID''), docs)
      else
        (let updateDoc =
               (productToDocument
                  \<lparr> name = name body, code = code body, count = count body,
                    description = description body, createdAt = None, updatedAt = None \<rparr> t1 t2)
                 \<lparr> doc_updatedAt := t3 \<rparr>
         in case findOneAndUpdate docs (new_ObjectId ident) updateDoc of
              (None, docs') \<Rightarrow> (Json 404 (Failure ''Product not found''), docs')
            | (Some result, docs') \<Rightarrow>
                (case documentToProduct result of
                   None \<Rightarrow> (Json 500 (Failure ''Failed to update product''), docs')
                 | Some p \<Rightarrow> (Json 200 (Success p), docs'))))"

definition DELETE :: "Collection \<Rightarrow> string \<Rightarrow> string Response \<times> Collection" where
  "DELETE docs ident =
     (if \<not> ObjectId_isValid ident
      then (Json 400 (Failure ''Invalid product ID''), docs)
      else
        (case deleteOne docs (new_ObjectId ident) of
           (deletedCount, docs') \<Rightarrow>
             (if deletedCount = 0 then (Json 404 (Failure ''Product not found''), docs')
              else (Json 200 (Success ''Product deleted successfully''), docs'))))"

section \<open>Remote access client (src/services/productService.ts)\<close>

text \<open>
  Each operation sends one request and unwraps the envelope: \<open>throw new Error(data.error || fallback)\<close>
  is \<open>Inl\<close> of the message, the returned \<open>data.data\<close> is \<open>Inr\<close>. \<open>JSON.stringify\<close> drops the
  fields that are \<open>undefined\<close>.
\<close>

definition toBody :: "'a ProductInput_scheme \<Rightarrow> RequestBody" where
  "toBody product =
     \<lparr> body_name = Some (name product), body_code = Some (code product),
       body_count = Some (count product), body_description = description product \<rparr>"

definition unwrap :: "string \<Rightarrow> 'a Response \<Rightarrow> string + 'a" where
  "unwrap fallback response =
     (case envelope response of
        Success d \<Rightarrow> Inr d
      | Failure e \<Rightarrow> Inl (if e = [] then fallback else e))"

definition createProduct ::
  "Collection \<Rightarrow> 'a ProductInput_scheme \<Rightarrow> ObjectId \<Rightarrow> date \<Rightarrow> date \<Rightarrow> (string + Product) \<times> Collection" where
  "createProduct docs product oid t1 t2 =
     (case POST docs (toBody product) oid t1 t2 of
        (response, docs') \<Rightarrow> (unwrap ''Failed to create product'' response, docs'))"

definition updateProduct_service ::
  "Collection \<Rightarrow> string \<Rightarrow> 'a ProductInput_scheme \<Rightarrow> date \<Rightarrow> date \<Rightarrow> date \<Rightarrow> (string + Product) \<times> Collection" where
  "updateProduct_service docs ident product t1 t2 t3 =
     (case PUT docs ident product t1 t2 t3 of
        (response, docs') \<Rightarrow> (unwrap ''Failed to update product'' response, docs'))"

definition deleteProduct_service :: "Collection \<Rightarrow> string \<Rightarrow> (string + unit) \<times> Collection" where
  "deleteProduct_service docs ident =
     (case DELETE docs ident of
        (response, docs') \<Rightarrow>
          (case unwrap ''Failed to delete product'' response of
             Inl e \<Rightarrow> Inl e
           | Inr m \<Rightarrow> Inr (), docs'))"

section \<open>Application state coordinator (src/app/page.tsx)\<close>

text \<open>
  The state of \<open>Home\<close>. Each operation takes the state and the collection behind the
  server and returns both; the \<open>catch\<close> of an operation sets \<open>error\<close> to the message of
  the Error thrown by the client.
\<close>

record Home =
  products :: "Product list"
  isModalOpen :: bool
  loading :: bool
  error :: "string option"

definition addProduct ::
  "Home \<Rightarrow> Collection \<Rightarrow> 'a ProductInput_scheme \<Rightarrow> ObjectId \<Rightarrow> date \<Rightarrow> date \<Rightarrow> Home \<times> Collection" where
  "addProduct h docs product oid t1 t2 =
     (case createProduct docs product oid t1 t2 of
        (Inr newProduct, docs') \<Rightarrow> (h\<lparr>products := newProduct # products h\<rparr>, docs')
      | (Inl message, docs') \<Rightarrow> (h\<lparr>error := Some message\<rparr>, docs'))"

definition updateProduct ::
  "Home \<Rightarrow> Collection \<Rightarrow> string \<Rightarrow> 'a ProductInput_scheme \<Rightarrow> date \<Rightarrow> date \<Rightarrow> date \<Rightarrow> Home \<times> Collection" where
  "updateProduct h docs ident updatedProduct t1 t2 t3 =
     (case updateProduct_service docs ident updatedProduct t1 t2 t3 of
        (Inr updated, docs') \<Rightarrow>
          (h\<lparr>products := map (\<lambda>product. if id_p product = ident then updated else product) (products h)\<rparr>,
           docs')
      | (Inl message, docs') \<Rightarrow> (h\<lparr>error := Some message\<rparr>, docs'))"

definition deleteProduct :: "Home \<Rightarrow> Collection \<Rightarrow> string \<Rightarrow> Home \<times> Collection" where
  "deleteProduct h docs ident =
     (case deleteProduct_service docs ident of
        (Inr u, docs') \<Rightarrow> (h\<lparr>products := filter (\<lambda>product. id_p product \<noteq> ident) (products h)\<rparr>, docs')
      | (Inl message, docs') \<Rightarrow> (h\<lparr>error := Some message\<rparr>, docs'))"

section \<open>Creation form (InventoryForm)\<close>

text \<open>
  \<open>String.prototype.trim\<close> belongs to the runtime and is a parameter, \<open>trim\<close>, of the
  handlers that call it. A string is truthy when it is not empty.
  \<open>trim_ascii\<close> removes the ASCII white space at both ends; on the ASCII strings of the
  examples below it is what the runtime's \<open>trim\<close> does.
\<close>

definition isSpace :: "char \<Rightarrow> bool" where
  "isSpace c = (c \<in> set [CHR '' '', CHR 0x09, CHR 0x0A, CHR 0x0B, CHR 0x0C, CHR 0x0D])"

definition trim_ascii :: "string \<Rightarrow> string" where
  "trim_ascii s = rev (dropWhile isSpace (rev (dropWhile isSpace s)))"

text \<open>\<open>s.trim() || undefined\<close>\<close>

definition trim_or_undefined :: "(string \<Rightarrow> string) \<Rightarrow> string \<Rightarrow> string option" where
  "trim_or_undefined trim s = (if trim s = [] then None else Some (trim s))"

text \<open>The form data of the creation form and of the full-row edit: four inputs.\<close>

record FormData =
  form_name :: string
  form_code :: string
  form_count :: int
  form_description :: string

definition emptyForm :: FormData where
  "emptyForm = \<lparr> form_name = [], form_code = [], form_count = 0, form_description = [] \<rparr>"

text \<open>
  \<open>errors\<close> holds the keys of the fields that failed validation (the messages shown
  are not modelled). \<open>handleSubmit\<close> returns the new state of the form and the product it
  passes to \<open>onAddProduct\<close>, if any; when it passes one it also resets the form data
  and calls \<open>onClose\<close>, which closes the modal in \<open>Home\<close>.
\<close>

record InventoryForm =
  formData :: FormData
  errors :: "string list"

definition handleSubmit ::
  "(string \<Rightarrow> string) \<Rightarrow> InventoryForm \<Rightarrow> InventoryForm \<times> ProductInput option" where
  "handleSubmit trim f =
     (let newErrors =
            (if trim (form_name (formData f)) = [] then [''name''] else []) @
            (if trim (form_code (formData f)) = [] then [''code''] else []) @
            (if form_count (formData f) \<le> 0 then [''count''] else [])
      in if newErrors = []
         then (f\<lparr> errors := newErrors, formData := emptyForm \<rparr>,
               Some \<lparr> name = trim (form_name (formData f)), code = trim (form_code (formData f)),
                      count = form_count (formData f),
                      description = trim_or_undefined trim (form_description (formData f)),
                      createdAt = None, updatedAt = None \<rparr>)
         else (f\<lparr> errors := newErrors \<rparr>, None))"

section \<open>List presentation (src/components/InventoryList.tsx)\<close>

record DeleteConfirmModal =
  isOpen :: bool
  productId :: string
  productName :: string

definition closedModal :: DeleteConfirmModal where
  "closedModal = \<lparr> isOpen = False, productId = [], productName = [] \<rparr>"

text \<open>The sort fields are the three that \<open>handleSort\<close> is called with.\<close>

datatype SortField = SortName | SortCode | SortCount

datatype SortDirection = asc | desc

record InventoryList =
  editingId :: "string option"
  editFormData :: FormData
  editingCountId :: "string option"
  tempCount :: int
  deleteConfirmModal :: DeleteConfirmModal
  sortField :: SortField
  sortDirection :: SortDirection
  currentPage :: int
  itemsPerPage :: int

definition initialList :: InventoryList where
  "initialList =
     \<lparr> editingId = None, editFormData = emptyForm, editingCountId = None, tempCount = 0,
       deleteConfirmModal = closedModal, sortField = SortName, sortDirection = asc,
       currentPage = 1, itemsPerPage = 10 \<rparr>"

subsection \<open>Editing\<close>

text \<open>
  A handler returns the new state and, where it calls \<open>onUpdateProduct\<close>, the
  identifier and the product it passes.
\<close>

definition startEditing :: "InventoryList \<Rightarrow> Product \<Rightarrow> InventoryList" where
  "startEditing st product =
     st\<lparr> editingId := Some (id_p product),
         editFormData :=
           \<lparr> form_name = name product, form_code = code product, form_count = count product,
             form_description = (case description product of None \<Rightarrow> [] | Some d \<Rightarrow> d) \<rparr> \<rparr>"

definition cancelEditing :: "InventoryList \<Rightarrow> InventoryList" where
  "cancelEditing st = st\<lparr> editingId := None, editFormData := emptyForm \<rparr>"

definition saveEdit ::
  "(string \<Rightarrow> string) \<Rightarrow> InventoryList \<Rightarrow> string \<Rightarrow> InventoryList \<times> (string \<times> ProductInput) option" where
  "saveEdit trim st ident =
     (if trim (form_name (editFormData st)) \<noteq> [] \<and> trim (form_code (editFormData st)) \<noteq> []
         \<and> form_count (editFormData st) > 0
      then (st\<lparr> editingId := None \<rparr>,
            Some (ident,
                  \<lparr> name = trim (form_name (editFormData st)),
                    code = trim (form_code (editFormData st)),
                    count = form_count (editFormData st),
                    description = trim_or_undefined trim (form_description (editFormData st)),
                    createdAt = None, updatedAt = None \<rparr>))
      else (st, None))"

text \<open>
  The count input of the row editor: \<open>parseInt(value) || 0\<close>, with \<open>None\<close> for the
  \<open>NaN\<close> of \<open>parseInt\<close>.
\<close>

definition parseInt_or_0 :: "int option \<Rightarrow> int" where
  "parseInt_or_0 v = (case v of None \<Rightarrow> 0 | Some n \<Rightarrow> n)"

definition handleEditInputChange_count :: "InventoryList \<Rightarrow> int option \<Rightarrow> InventoryList" where
  "handleEditInputChange_count st v =
     st\<lparr> editFormData := (editFormData st)\<lparr> form_count := parseInt_or_0 v \<rparr> \<rparr>"

definition startCountEdit :: "InventoryList \<Rightarrow> Product \<Rightarrow> InventoryList" where
  "startCountEdit st product = st\<lparr> editingCountId := Some (id_p product), tempCount := count product \<rparr>"

definition setTempCount :: "InventoryList \<Rightarrow> int option \<Rightarrow> InventoryList" where
  "setTempCount st v = st\<lparr> tempCount := parseInt_or_0 v \<rparr>"

definition saveCountEdit ::
  "Product list \<Rightarrow> InventoryList \<Rightarrow> string \<Rightarrow> InventoryList \<times> (string \<times> ProductInput) option" where
  "saveCountEdit prods st ident =
     (st\<lparr> editingCountId := None \<rparr>,
      if tempCount st > 0
      then (case find (\<lambda>p. id_p p = ident) prods of
              Some product \<Rightarrow>
                Some (ident,
                      \<lparr> name = name product, code = code product, count = tempCount st,
                        description = description product, createdAt = None, updatedAt = None \<rparr>)
            | None \<Rightarrow> None)
      else None)"

definition cancelCountEdit :: "InventoryList \<Rightarrow> InventoryList" where
  "cancelCountEdit st = st\<lparr> editingCountId := None, tempCount := 0 \<rparr>"

subsection \<open>Delete confirmation\<close>

definition handleDeleteClick :: "InventoryList \<Rightarrow> Product \<Rightarrow> InventoryList" where
  "handleDeleteClick st product =
     st\<lparr> deleteConfirmModal :=
           \<lparr> isOpen = True, productId = id_p product, productName = name product \<rparr> \<rparr>"

text \<open>\<open>handleDeleteConfirm\<close> returns the identifier it passes to \<open>onDeleteProduct\<close>.\<close>

definition handleDeleteConfirm :: "InventoryList \<Rightarrow> InventoryList \<times> string" where
  "handleDeleteConfirm st =
     (st\<lparr> deleteConfirmModal := closedModal \<rparr>, productId (deleteConfirmModal st))"

definition handleDeleteCancel :: "InventoryList \<Rightarrow> InventoryList" where
  "handleDeleteCancel st = st\<lparr> deleteConfirmModal := closedModal \<rparr>"

subsection \<open>Sorting\<close>

text \<open>
  \<open>[...products].sort(compare)\<close>: the sort of the language is stable, so for a
  comparator that orders the products consistently its result is that of the stable
  insertion sort below. \<open>localeCompare\<close> belongs to the runtime and is a parameter.
\<close>

definition handleSort :: "InventoryList \<Rightarrow> SortField \<Rightarrow> InventoryList" where
  "handleSort st field =
     (if sortField st = field
      then st\<lparr> sortDirection := (if sortDirection st = asc then desc else asc) \<rparr>
      else st\<lparr> sortField := field, sortDirection := asc \<rparr>)"

definition compareProducts ::
  "(string \<Rightarrow> string \<Rightarrow> int) \<Rightarrow> InventoryList \<Rightarrow> Product \<Rightarrow> Product \<Rightarrow> int" where
  "compareProducts localeCompare st a b =
     (case sortField st of
        SortName \<Rightarrow>
          (if sortDirection st = asc then localeCompare (name a) (name b)
           else localeCompare (name b) (name a))
      | SortCode \<Rightarrow>
          (if sortDirection st = asc then localeCompare (code a) (code b)
           else localeCompare (code b) (code a))
      | SortCount \<Rightarrow>
          (if sortDirection st = asc then count a - count b else count b - count a))"

fun insert_by :: "('a \<Rightarrow> 'a \<Rightarrow> int) \<Rightarrow> 'a \<Rightarrow> 'a list \<Rightarrow> 'a list" where
  "insert_by cmp x [] = [x]"
| "insert_by cmp x (y # ys) = (if cmp x y \<le> 0 then x # y # ys else y # insert_by cmp x ys)"

definition sort_by :: "('a \<Rightarrow> 'a \<Rightarrow> int) \<Rightarrow> 'a list \<Rightarrow> 'a list" where
  "sort_by cmp xs = foldr (insert_by cmp) xs []"

definition sortedProducts ::
  "(string \<Rightarrow> string \<Rightarrow> int) \<Rightarrow> Product list \<Rightarrow> InventoryList \<Rightarrow> Product list" where
  "sortedProducts localeCompare prods st = sort_by (compareProducts localeCompare st) prods"

subsection \<open>Pagination\<close>

text \<open>
  The numbers \<open>Math.ceil(length / itemsPerPage)\<close> can be: an integer, \<open>Infinity\<close>
  (a positive length over 0) and \<open>NaN\<close> (0 over 0).
\<close>

datatype Number = Finite int | Infinity | NaN

definition Math_ceil_div :: "nat \<Rightarrow> int \<Rightarrow> Number" where
  "Math_ceil_div n k =
     (if k = 0 then (if n = 0 then NaN else Infinity)
      else Finite (- ((- int n) div k)))"

text \<open>
  \<open>Array.prototype.slice(start, end)\<close>: a negative index counts from the end, both
  indices are cut to the length, and an empty range gives the empty array.
\<close>

definition slice :: "'a list \<Rightarrow> int \<Rightarrow> int \<Rightarrow> 'a list" where
  "slice xs start end' =
     (let len = int (length xs);
          k = (if start < 0 then max (len + start) 0 else min start len);
          final = (if end' < 0 then max (len + end') 0 else min end' len)
      in take (nat (final - k)) (drop (nat k) xs))"

definition totalPages :: "(string \<Rightarrow> string \<Rightarrow> int) \<Rightarrow> Product list \<Rightarrow> InventoryList \<Rightarrow> Number" where
  "totalPages localeCompare prods st =
     Math_ceil_div (length (sortedProducts localeCompare prods st)) (itemsPerPage st)"

definition startIndex :: "InventoryList \<Rightarrow> int" where
  "startIndex st = (currentPage st - 1) * itemsPerPage st"

definition endIndex :: "InventoryList \<Rightarrow> int" where
  "endIndex st = startIndex st + itemsPerPage st"

definition paginatedProducts ::
  "(string \<Rightarrow> string \<Rightarrow> int) \<Rightarrow> Product list \<Rightarrow> InventoryList \<Rightarrow> Product list" where
  "paginatedProducts localeCompare prods st =
     slice (sortedProducts localeCompare prods st) (startIndex st) (endIndex st)"

text \<open>
  \<open>handlePageChange\<close> and \<open>handleItemsPerPageChange\<close> are local to the component, and
  no control of it calls either.
\<close>

definition handlePageChange :: "InventoryList \<Rightarrow> int \<Rightarrow> InventoryList" where
  "handlePageChange st page = st\<lparr> currentPage := page \<rparr>"

definition handleItemsPerPageChange :: "InventoryList \<Rightarrow> int \<Rightarrow> InventoryList" where
  "handleItemsPerPageChange st newItemsPerPage =
     st\<lparr> itemsPerPage := newItemsPerPage, currentPage := 1 \<rparr>"

text \<open>
  The pagination controls, which are rendered when there is a product. The handlers take
  the \<open>totalPages\<close> of the render they belong to.
  Previous: \<open>setCurrentPage(prev => Math.max(prev - 1, 1))\<close>.
  Next: \<open>setCurrentPage(prev => Math.min(prev + 1, totalPages))\<close>; \<open>totalPages\<close> is
  \<open>NaN\<close> only without products, where no control is rendered, and the state is left as it is.
\<close>

definition previousPage :: "InventoryList \<Rightarrow> InventoryList" where
  "previousPage st = st\<lparr> currentPage := max (currentPage st - 1) 1 \<rparr>"

definition nextPage :: "Number \<Rightarrow> InventoryList \<Rightarrow> InventoryList" where
  "nextPage pages st =
     (case pages of
        Finite t \<Rightarrow> st\<lparr> currentPage := min (currentPage st + 1) t \<rparr>
      | Infinity \<Rightarrow> st\<lparr> currentPage := currentPage st + 1 \<rparr>
      | NaN \<Rightarrow> st)"

text \<open>
  The numbered buttons: \<open>Array.from({ length: Math.min(totalPages, 7) }, (_, i) => ...)\<close>,
  each setting \<open>currentPage\<close> to its \<open>pageNumber\<close>.
\<close>

definition pageNumber :: "Number \<Rightarrow> int \<Rightarrow> int \<Rightarrow> int" where
  "pageNumber pages current i =
     (case pages of
        Finite t \<Rightarrow>
          (if t \<le> 7 then i + 1
           else if current \<le> 4 then i + 1
           else if current \<ge> t - 3 then t - 6 + i
           else current - 3 + i)
      | _ \<Rightarrow> (if current \<le> 4 then i + 1 else current - 3 + i))"

definition pageNumbers :: "Number \<Rightarrow> int \<Rightarrow> int list" where
  "pageNumbers pages current =
     (case pages of
        Finite t \<Rightarrow> map (\<lambda>i. pageNumber pages current (int i)) [0 ..< nat (min t 7)]
      | Infinity \<Rightarrow> map (\<lambda>i. pageNumber pages current (int i)) [0 ..< 7]
      | NaN \<Rightarrow> [])"

text \<open>
  The navigation controls rendered: the previous button, the next button and the
  numbered buttons, the \<open>i\<close>-th of which (from 0) sets the current page to its
  \<open>pageNumber\<close>; there is no event for a numbered button that is not rendered.
  \<open>navigate\<close> is a sequence of clicks within one collection and page size, so that
  \<open>totalPages\<close> is the same at every click.
\<close>

datatype NavControl = PreviousButton | NextButton | PageButton nat

definition clickControl :: "Number \<Rightarrow> InventoryList \<Rightarrow> NavControl \<Rightarrow> InventoryList" where
  "clickControl pages st control =
     (case control of
        PreviousButton \<Rightarrow> previousPage st
      | NextButton \<Rightarrow> nextPage pages st
      | PageButton i \<Rightarrow>
          (if i < length (pageNumbers pages (currentPage st))
           then st\<lparr> currentPage := pageNumbers pages (currentPage st) ! i \<rparr>
           else st))"

definition navigate :: "Number \<Rightarrow> InventoryList \<Rightarrow> NavControl list \<Rightarrow> InventoryList" where
  "navigate pages st controls = foldl (clickControl pages) st controls"

section \<open>The delete flow: list, confirmation gate, coordinator and server\<close>

text \<open>
  \<open>ConfirmModal\<close> renders nothing unless \<open>isOpen\<close>, and registers its Escape handler
  only then: a confirm or a cancel event exists only while the gate is open. Its confirm
  button calls \<open>handleDeleteConfirm\<close>; its cancel button, its background and the Escape key
  call \<open>handleDeleteCancel\<close>. \<open>handleDeleteConfirm\<close> is the only caller of
  \<open>onDeleteProduct\<close>, which is the coordinator's \<open>deleteProduct\<close>.
  \<open>deleteCalls\<close> records the identifiers of the DELETE requests sent, in order.
\<close>

datatype GateEvent = DeleteClick Product | ConfirmClick | CancelClick

record App =
  home :: Home
  listState :: InventoryList
  server :: Collection
  deleteCalls :: "string list"

definition step :: "App \<Rightarrow> GateEvent \<Rightarrow> App" where
  "step a e =
     (case e of
        DeleteClick product \<Rightarrow> a\<lparr> listState := handleDeleteClick (listState a) product \<rparr>
      | CancelClick \<Rightarrow>
          (if isOpen (deleteConfirmModal (listState a))
           then a\<lparr> listState := handleDeleteCancel (listState a) \<rparr>
           else a)
      | ConfirmClick \<Rightarrow>
          (if isOpen (deleteConfirmModal (listState a))
           then (case handleDeleteConfirm (listState a) of
                   (st', ident) \<Rightarrow>
                     (case deleteProduct (home a) (server a) ident of
                        (h', docs') \<Rightarrow>
                          a\<lparr> home := h', listState := st', server := docs',
                              deleteCalls := deleteCalls a @ [ident] \<rparr>))
           else a))"

fun run :: "App \<Rightarrow> GateEvent list \<Rightarrow> App" where
  "run a [] = a"
| "run a (e # es) = run (step a e) es"

text \<open>
  The confirmation gate as the specification words it: closed, or open carrying the
  target's identity; confirming invokes the action on the target and closes, cancelling
  discards the target. \<open>confirmedIds\<close> lists the targets confirmed by a sequence of events.
\<close>

fun confirmedIds :: "string option \<Rightarrow> GateEvent list \<Rightarrow> string list" where
  "confirmedIds pending [] = []"
| "confirmedIds pending (DeleteClick product # es) = confirmedIds (Some (id_p product)) es"
| "confirmedIds pending (CancelClick # es) = confirmedIds None es"
| "confirmedIds None (ConfirmClick # es) = confirmedIds None es"
| "confirmedIds (Some ident) (ConfirmClick # es) = ident # confirmedIds None es"

definition pendingTarget :: "App \<Rightarrow> string option" where
  "pendingTarget a =
     (if isOpen (deleteConfirmModal (listState a))
      then Some (productId (deleteConfirmModal (listState a)))
      else None)"

section \<open>Comparing stored documents\<close>

text \<open>
  Two stored documents are the same apart from their timestamps when they agree on
  \<open>_id\<close>, \<open>name\<close>, \<open>code\<close>, \<open>count\<close> and \<open>description\<close>.
\<close>

definition sameApartFromTimes :: "ProductDocument \<Rightarrow> ProductDocument \<Rightarrow> bool" where
  "sameApartFromTimes d d' =
     (doc_id d = doc_id d' \<and> doc_name d = doc_name d' \<and> doc_code d = doc_code d'
      \<and> doc_count d = doc_count d' \<and> doc_description d = doc_description d')"

section \<open>A two-product scenario\<close>

text \<open>
  The session of the specification's examples: an empty collection and an empty store,
  the product \<open>Widget\<close> with code \<open>W-1\<close> as the form submits it and as the server
  returns it, and two identifiers for the driver to assign.
\<close>

definition sampleId :: string where
  "sampleId = ''0123456789abcdef01234567''"

definition otherId :: string where
  "otherId = ''0123456789abcdef01234568''"

definition widget :: ProductInput where
  "widget = \<lparr> name = ''Widget'', code = ''W-1'', count = 10, description = None,
               createdAt = None, updatedAt = None \<rparr>"

definition emptyHome :: Home where
  "emptyHome = \<lparr> products = [], isModalOpen = False, loading = False, error = None \<rparr>"

definition widgetProduct :: Product where
  "widgetProduct = \<lparr> name = ''Widget'', code = ''W-1'', count = 10, description = None,
                      createdAt = Some 10, updatedAt = Some 11, id_p = sampleId \<rparr>"

text \<open>
  Five products that differ in their count, a \<open>localeCompare\<close> that ranks every pair
  equal (the stable sort then keeps the order given), the stored document of \<open>Widget\<close>,
  and the application with \<open>Widget\<close> in the collection and in the store, the gate closed.
\<close>

definition fiveProducts :: "Product list" where
  "fiveProducts = map (\<lambda>n. widgetProduct\<lparr> count := n \<rparr>) [1, 2, 3, 4, 5]"

definition noOrder :: "string \<Rightarrow> string \<Rightarrow> int" where
  "noOrder a b = 0"

definition widgetDocument :: ProductDocument where
  "widgetDocument = \<lparr> doc_id = Some sampleId, doc_name = ''Widget'', doc_code = ''W-1'',
      doc_count = 10, doc_description = None, doc_createdAt = 10, doc_updatedAt = 11 \<rparr>"

definition app0 :: App where
  "app0 = \<lparr> home = emptyHome\<lparr> products := [widgetProduct] \<rparr>, listState = initialList,
            server = [widgetDocument], deleteCalls = [] \<rparr>"

section \<open>Properties\<close>

subsection \<open>Stock status\<close>

lemma stockStatus_OutOfStock: "stockStatus p = OutOfStock \<longleftrightarrow> count p = 0"
  by (simp add: stockStatus_def)

lemma stockStatus_InStock: "stockStatus p = InStock \<longleftrightarrow> 5 < count p"
  by (simp add: stockStatus_def)

lemma stockStatus_LowStock: "stockStatus p = LowStock \<longleftrightarrow> count p \<noteq> 0 \<and> count p \<le> 5"
  by (simp add: stockStatus_def)

text \<open>
  Claim C1, as stated, fails: a product whose count is \<open>-1\<close> is shown as low stock,
  although \<open>0 < count\<close> does not hold.
\<close>

theorem stockStatus_negative_counterexample:
  "stockStatus \<lparr> name = ''Widget'', code = ''W-1'', count = - 1, description = None,
                  createdAt = None, updatedAt = None, id_p = ''a'' \<rparr> = LowStock
   \<and> \<not> (0 < count \<lparr> name = ''Widget'', code = ''W-1'', count = - 1, description = None,
                       createdAt = None, updatedAt = None, id_p = ''a'' \<rparr>)"
  by (simp add: stockStatus_def)

text \<open>
  Claim C1 (amended): for every product, the derived status is out of stock exactly when
  the count is 0, in stock exactly when the count is greater than 5, and low stock exactly
  when the count is at most 5 and not 0, with the threshold 5 a constant of the code.
  On the counts from 0 upwards, low stock is exactly \<open>0 < count \<le> 5\<close>.
\<close>

theorem stockStatus_table:
  "(stockStatus p = OutOfStock \<longleftrightarrow> count p = 0)
   \<and> (stockStatus p = LowStock \<longleftrightarrow> count p \<noteq> 0 \<and> count p \<le> 5)
   \<and> (stockStatus p = InStock \<longleftrightarrow> 5 < count p)
   \<and> (stockStatus p = LowStock \<and> 0 \<le> count p \<longleftrightarrow> 0 < count p \<and> count p \<le> 5)"
  by (auto simp add: stockStatus_def)

subsection \<open>The store and the POST handler\<close>

lemma findOne_code_None_iff:
  "findOne_code docs c = None \<longleftrightarrow> (\<forall>d \<in> set docs. doc_code d \<noteq> c)"
  by (auto simp add: findOne_code_def find_None_iff)

lemma findOne_id_append_fresh:
  "findOne_id docs oid = None \<Longrightarrow> doc_id d = Some oid \<Longrightarrow> findOne_id (docs @ [d]) oid = Some d"
  by (induction docs) (auto simp add: findOne_id_def)

lemma POST_required:
  assumes "falsy (body_name b) \<or> falsy (body_code b) \<or> body_count b = None"
  shows "POST docs b oid t1 t2 = (Json 400 (Failure ''Name, code, and count are required''), docs)"
  using assms by (simp add: POST_def)

lemma POST_duplicate:
  assumes "\<not> falsy (body_name b)" "\<not> falsy (body_code b)" "body_count b \<noteq> None"
    and "findOne_code docs (the (body_code b)) \<noteq> None"
  shows "POST docs b oid t1 t2 = (Json 400 (Failure ''Product code already exists''), docs)"
  using assms by (auto simp add: POST_def)

lemma POST_created:
  assumes "\<not> falsy (body_name b)" "\<not> falsy (body_code b)" "body_count b = Some c"
    and "findOne_code docs (the (body_code b)) = None" and "findOne_id docs oid = None"
  shows "POST docs b oid t1 t2 =
           (Json 200 (Success \<lparr> name = the (body_name b), code = the (body_code b), count = c,
                                 description = body_description b, createdAt = Some t1,
                                 updatedAt = Some t2, id_p = oid \<rparr>),
            docs @ [\<lparr> doc_id = Some oid, doc_name = the (body_name b), doc_code = the (body_code b),
                      doc_count = c, doc_description = body_description b,
                      doc_createdAt = t1, doc_updatedAt = t2 \<rparr>])"
proof -
  let ?doc = "\<lparr> doc_id = Some oid, doc_name = the (body_name b), doc_code = the (body_code b),
                 doc_count = c, doc_description = body_description b,
                 doc_createdAt = t1, doc_updatedAt = t2 \<rparr>"
  have ins: "insertOne docs oid (productToDocument
                      \<lparr> name = the (body_name b), code = the (body_code b),
                        count = the (body_count b), description = body_description b,
                        createdAt = None, updatedAt = None \<rparr> t1 t2) = Inr (docs @ [?doc])"
    using assms(3,5) by (simp add: insertOne_def productToDocument_def)
  have found: "findOne_id (docs @ [?doc]) oid = Some ?doc"
    using assms(5) by (simp add: findOne_id_append_fresh)
  show ?thesis
    using assms(1-4) unfolding POST_def Let_def ins
    by (simp add: found documentToProduct_def)
qed

lemma POST_duplicate_rejected:
  assumes "body_code b = Some c" and "\<exists>d \<in> set docs. doc_code d = c"
  shows "status (fst (POST docs b oid t1 t2)) = 400 \<and> snd (POST docs b oid t1 t2) = docs
     \<and> (\<exists>m. envelope (fst (POST docs b oid t1 t2)) = Failure m)"
proof (cases "falsy (body_name b) \<or> falsy (body_code b) \<or> body_count b = None")
  case True
  then show ?thesis by (simp add: POST_required)
next
  case False
  moreover have "findOne_code docs (the (body_code b)) \<noteq> None"
    using assms by (simp add: findOne_code_None_iff)
  ultimately show ?thesis by (simp add: POST_duplicate)
qed

subsection \<open>The scenario, evaluated\<close>

lemma createProduct_widget:
  "createProduct [] widget sampleId 10 11 =
     (Inr \<lparr> name = ''Widget'', code = ''W-1'', count = 10, description = None,
            createdAt = Some 10, updatedAt = Some 11, id_p = sampleId \<rparr>,
      [\<lparr> doc_id = Some sampleId, doc_name = ''Widget'', doc_code = ''W-1'', doc_count = 10,
         doc_description = None, doc_createdAt = 10, doc_updatedAt = 11 \<rparr>])"
  unfolding createProduct_def
  by (simp add: POST_created toBody_def widget_def falsy_def findOne_code_def findOne_id_def unwrap_def)

lemma addProduct_widget:
  "addProduct emptyHome [] widget sampleId 10 11 =
     (emptyHome\<lparr> products := [\<lparr> name = ''Widget'', code = ''W-1'', count = 10, description = None,
            createdAt = Some 10, updatedAt = Some 11, id_p = sampleId \<rparr>] \<rparr>,
      [\<lparr> doc_id = Some sampleId, doc_name = ''Widget'', doc_code = ''W-1'', doc_count = 10,
         doc_description = None, doc_createdAt = 10, doc_updatedAt = 11 \<rparr>])"
  by (simp add: addProduct_def createProduct_widget emptyHome_def)

lemma createProduct_gadget:
  "createProduct
     [\<lparr> doc_id = Some sampleId, doc_name = ''Widget'', doc_code = ''W-1'', doc_count = 10,
        doc_description = None, doc_createdAt = 10, doc_updatedAt = 11 \<rparr>]
     (widget\<lparr> name := ''Gadget'' \<rparr>) otherId 20 21 =
     (Inl ''Product code already exists'',
      [\<lparr> doc_id = Some sampleId, doc_name = ''Widget'', doc_code = ''W-1'', doc_count = 10,
         doc_description = None, doc_createdAt = 10, doc_updatedAt = 11 \<rparr>])"
  unfolding createProduct_def
  by (simp add: POST_duplicate toBody_def widget_def falsy_def findOne_code_def unwrap_def)

subsection \<open>Duplicate codes\<close>

text \<open>
  Claim C5, as stated, fails: with the code \<open>W-1\<close> stored, a create request with that
  code and no count, or with that code and an empty name, is answered with the validation
  error \<open>Name, code, and count are required\<close>, not with the conflict error.
\<close>

theorem duplicate_code_validation_first_counterexample:
  "doc_code widgetDocument = ''W-1''
   \<and> fst (POST [widgetDocument]
              \<lparr> body_name = Some ''Gadget'', body_code = Some ''W-1'', body_count = None,
                body_description = None \<rparr> otherId 20 21)
       = Json 400 (Failure ''Name, code, and count are required'')
   \<and> fst (POST [widgetDocument]
              \<lparr> body_name = Some [], body_code = Some ''W-1'', body_count = Some 1,
                body_description = None \<rparr> otherId 20 21)
       = Json 400 (Failure ''Name, code, and count are required'')
   \<and> Json 400 (Failure ''Name, code, and count are required'')
       \<noteq> (Json 400 (Failure ''Product code already exists'') :: Product Response)"
  by (simp add: POST_required falsy_def widgetDocument_def)

text \<open>
  Claim C5 (amended): a create request whose code is the code of a stored product is
  answered with status 400 and a failure envelope, and nothing is inserted. The check of
  the required fields comes first: the error is the conflict error
  \<open>Product code already exists\<close> when the request has a name that is not empty, a code
  that is not empty and a count, and the validation error
  \<open>Name, code, and count are required\<close> otherwise. When the request is the one the
  coordinator's \<open>addProduct\<close> sends, its collection is left unchanged and its error
  message is set.
\<close>

theorem duplicate_code_rejected:
  assumes "body_code b = Some c" and "\<exists>d \<in> set docs. doc_code d = c"
  shows "status (fst (POST docs b oid t1 t2)) = 400
     \<and> (\<exists>m. envelope (fst (POST docs b oid t1 t2)) = Failure m)
     \<and> snd (POST docs b oid t1 t2) = docs
     \<and> (\<not> falsy (body_name b) \<and> c \<noteq> [] \<and> body_count b \<noteq> None \<longrightarrow>
          fst (POST docs b oid t1 t2) = Json 400 (Failure ''Product code already exists''))
     \<and> (falsy (body_name b) \<or> c = [] \<or> body_count b = None \<longrightarrow>
          fst (POST docs b oid t1 t2) = Json 400 (Failure ''Name, code, and count are required''))
     \<and> (b = toBody product \<longrightarrow>
          products (fst (addProduct h docs product oid t1 t2)) = products h
          \<and> error (fst (addProduct h docs product oid t1 t2)) \<noteq> None
          \<and> snd (addProduct h docs product oid t1 t2) = docs)"
proof -
  have rej: "status (fst (POST docs b oid t1 t2)) = 400 \<and> snd (POST docs b oid t1 t2) = docs
     \<and> (\<exists>m. envelope (fst (POST docs b oid t1 t2)) = Failure m)"
    using assms by (rule POST_duplicate_rejected)
  have found: "findOne_code docs (the (body_code b)) \<noteq> None"
    using assms by (simp add: findOne_code_None_iff)
  have conflict: "\<not> falsy (body_name b) \<and> c \<noteq> [] \<and> body_count b \<noteq> None \<longrightarrow>
          fst (POST docs b oid t1 t2) = Json 400 (Failure ''Product code already exists'')"
    using assms(1) found by (simp add: POST_duplicate falsy_def)
  have required: "falsy (body_name b) \<or> c = [] \<or> body_count b = None \<longrightarrow>
          fst (POST docs b oid t1 t2) = Json 400 (Failure ''Name, code, and count are required'')"
  proof
    assume "falsy (body_name b) \<or> c = [] \<or> body_count b = None"
    then have "falsy (body_name b) \<or> falsy (body_code b) \<or> body_count b = None"
      using assms(1) by (auto simp add: falsy_def)
    then show "fst (POST docs b oid t1 t2) = Json 400 (Failure ''Name, code, and count are required'')"
      by (simp add: POST_required)
  qed
  have client: "b = toBody product \<longrightarrow>
          products (fst (addProduct h docs product oid t1 t2)) = products h
          \<and> error (fst (addProduct h docs product oid t1 t2)) \<noteq> None
          \<and> snd (addProduct h docs product oid t1 t2) = docs"
  proof
    assume b: "b = toBody product"
    obtain r where r: "POST docs (toBody product) oid t1 t2 = (r, docs)"
      using rej b by (cases "POST docs (toBody product) oid t1 t2") auto
    obtain m where m: "envelope r = Failure m"
      using rej b r by auto
    show "products (fst (addProduct h docs product oid t1 t2)) = products h
          \<and> error (fst (addProduct h docs product oid t1 t2)) \<noteq> None
          \<and> snd (addProduct h docs product oid t1 t2) = docs"
      by (simp add: addProduct_def createProduct_def r unwrap_def m)
  qed
  show ?thesis using rej conflict required client by blast
qed

text \<open>
  The two-product scenario: \<open>Widget\<close> is added to the empty collection, then a second
  product with the same code is refused and the collection keeps its size 1.
\<close>

theorem duplicate_code_rejected_witness:
  "length (products (fst (addProduct emptyHome [] widget sampleId 10 11))) = 1
   \<and> fst (POST (snd (addProduct emptyHome [] widget sampleId 10 11))
              (toBody (widget\<lparr> name := ''Gadget'' \<rparr>)) otherId 20 21)
       = Json 400 (Failure ''Product code already exists'')
   \<and> snd (POST (snd (addProduct emptyHome [] widget sampleId 10 11))
              (toBody (widget\<lparr> name := ''Gadget'' \<rparr>)) otherId 20 21)
       = snd (addProduct emptyHome [] widget sampleId 10 11)
   \<and> length (products (fst (addProduct (fst (addProduct emptyHome [] widget sampleId 10 11))
                               (snd (addProduct emptyHome [] widget sampleId 10 11))
                               (widget\<lparr> name := ''Gadget'' \<rparr>) otherId 20 21))) = 1"
proof -
  let ?h1 = "emptyHome\<lparr> products := [\<lparr> name = ''Widget'', code = ''W-1'', count = 10,
            description = None, createdAt = Some 10, updatedAt = Some 11, id_p = sampleId \<rparr>] \<rparr>"
  let ?docs1 = "[\<lparr> doc_id = Some sampleId, doc_name = ''Widget'', doc_code = ''W-1'',
            doc_count = 10, doc_description = None, doc_createdAt = 10, doc_updatedAt = 11 \<rparr>]"
  let ?gadget = "widget\<lparr> name := ''Gadget'' \<rparr>"
  have first: "addProduct emptyHome [] widget sampleId 10 11 = (?h1, ?docs1)"
    by (rule addProduct_widget)
  have c: "body_code (toBody ?gadget) = Some ''W-1''"
    by (simp add: toBody_def widget_def)
  have stored: "\<exists>d \<in> set ?docs1. doc_code d = ''W-1''"
    by simp
  have ok: "\<not> falsy (body_name (toBody ?gadget)) \<and> ''W-1'' \<noteq> [] \<and> body_count (toBody ?gadget) \<noteq> None"
    by (simp add: toBody_def widget_def falsy_def)
  show ?thesis
    unfolding first fst_conv snd_conv
    using duplicate_code_rejected [OF c stored, of otherId 20 21 ?gadget ?h1] ok
    by simp
qed

subsection \<open>Add synchronization\<close>

text \<open>
  Claim C6: when \<open>create\<close> succeeds with a product, \<open>addProduct\<close> changes the
  coordinator's state only by putting that product at the front of the collection; when
  \<open>create\<close> fails with a message, it changes the state only by setting the error message,
  so the collection is exactly the one before.
\<close>

theorem addProduct_sync:
  "(fst (createProduct docs product oid t1 t2) = Inr p \<longrightarrow>
      fst (addProduct h docs product oid t1 t2) = h\<lparr> products := p # products h \<rparr>)
   \<and> (fst (createProduct docs product oid t1 t2) = Inl m \<longrightarrow>
      fst (addProduct h docs product oid t1 t2) = h\<lparr> error := Some m \<rparr>
      \<and> products (fst (addProduct h docs product oid t1 t2)) = products h)"
  by (cases "createProduct docs product oid t1 t2") (auto simp add: addProduct_def split: sum.splits)

theorem addProduct_sync_witness:
  "products (fst (addProduct emptyHome [] widget sampleId 10 11)) =
     [\<lparr> name = ''Widget'', code = ''W-1'', count = 10, description = None,
        createdAt = Some 10, updatedAt = Some 11, id_p = sampleId \<rparr>]
   \<and> error (fst (addProduct emptyHome [] widget sampleId 10 11)) = None
   \<and> products (fst (addProduct emptyHome
        [\<lparr> doc_id = Some sampleId, doc_name = ''Widget'', doc_code = ''W-1'', doc_count = 10,
           doc_description = None, doc_createdAt = 10, doc_updatedAt = 11 \<rparr>]
        (widget\<lparr> name := ''Gadget'' \<rparr>) otherId 20 21)) = []
   \<and> error (fst (addProduct emptyHome
        [\<lparr> doc_id = Some sampleId, doc_name = ''Widget'', doc_code = ''W-1'', doc_count = 10,
           doc_description = None, doc_createdAt = 10, doc_updatedAt = 11 \<rparr>]
        (widget\<lparr> name := ''Gadget'' \<rparr>) otherId 20 21)) = Some ''Product code already exists''"
proof -
  let ?p = "\<lparr> name = ''Widget'', code = ''W-1'', count = 10, description = None,
        createdAt = Some 10, updatedAt = Some 11, id_p = sampleId \<rparr>"
  let ?docs1 = "[\<lparr> doc_id = Some sampleId, doc_name = ''Widget'', doc_code = ''W-1'',
            doc_count = 10, doc_description = None, doc_createdAt = 10, doc_updatedAt = 11 \<rparr>]"
  have ok: "fst (createProduct [] widget sampleId 10 11) = Inr ?p"
    by (simp add: createProduct_widget)
  have ko: "fst (createProduct ?docs1 (widget\<lparr> name := ''Gadget'' \<rparr>) otherId 20 21)
              = Inl ''Product code already exists''"
    by (simp add: createProduct_gadget)
  show ?thesis
    using addProduct_sync [of "[]" widget sampleId 10 11 ?p emptyHome "[]"] ok
          addProduct_sync [of ?docs1 "widget\<lparr> name := ''Gadget'' \<rparr>" otherId 20 21 ?p emptyHome
                              "''Product code already exists''"] ko
    by (simp add: emptyHome_def)
qed

subsection \<open>What create validation rejects\<close>

text \<open>
  Claim C7, as stated, fails: a POST request with count 0, a name and an unused code is
  answered with status 200 and its record is inserted.
\<close>

theorem POST_zero_count_counterexample:
  "status (fst (POST [] \<lparr> body_name = Some ''Widget'', body_code = Some ''W-1'',
                           body_count = Some 0, body_description = None \<rparr> sampleId 10 11)) = 200
   \<and> map doc_count (snd (POST [] \<lparr> body_name = Some ''Widget'', body_code = Some ''W-1'',
                           body_count = Some 0, body_description = None \<rparr> sampleId 10 11)) = [0]"
  by (simp add: POST_created falsy_def findOne_code_def findOne_id_def)

text \<open>
  Claim C7 (amended): a POST request is rejected as a validation error, status 400 with
  the message \<open>Name, code, and count are required\<close> and nothing inserted, when its name or
  code is missing or empty or its count is missing. A request with a name, a code that no
  stored product has and any count, 0 and the negative ones included, is accepted with
  status 200 and its record is inserted with that count. A count that is not positive is
  refused by the creation form, which then records the error on its count field, keeps
  the form data and passes no product on.
\<close>

theorem create_validation:
  "(falsy (body_name b) \<or> falsy (body_code b) \<or> body_count b = None \<longrightarrow>
      POST docs b oid t1 t2 = (Json 400 (Failure ''Name, code, and count are required''), docs))
   \<and> (\<not> falsy (body_name b) \<and> \<not> falsy (body_code b) \<and> body_count b = Some c
       \<and> findOne_code docs (the (body_code b)) = None \<and> findOne_id docs oid = None \<longrightarrow>
      POST docs b oid t1 t2 =
           (Json 200 (Success \<lparr> name = the (body_name b), code = the (body_code b), count = c,
                                 description = body_description b, createdAt = Some t1,
                                 updatedAt = Some t2, id_p = oid \<rparr>),
            docs @ [\<lparr> doc_id = Some oid, doc_name = the (body_name b), doc_code = the (body_code b),
                      doc_count = c, doc_description = body_description b,
                      doc_createdAt = t1, doc_updatedAt = t2 \<rparr>]))
   \<and> (form_count (formData f) \<le> 0 \<longrightarrow>
        snd (handleSubmit trim f) = None
        \<and> ''count'' \<in> set (errors (fst (handleSubmit trim f)))
        \<and> formData (fst (handleSubmit trim f)) = formData f)"
proof -
  have "form_count (formData f) \<le> 0 \<longrightarrow>
        snd (handleSubmit trim f) = None
        \<and> ''count'' \<in> set (errors (fst (handleSubmit trim f)))
        \<and> formData (fst (handleSubmit trim f)) = formData f"
    by (simp add: handleSubmit_def Let_def)
  then show ?thesis
    using POST_required [of b docs oid t1 t2] POST_created [of b c docs oid t1 t2] by blast
qed

theorem create_validation_witness:
  "POST [] \<lparr> body_name = Some ''Widget'', body_code = Some ''W-1'', body_count = None,
             body_description = None \<rparr> sampleId 10 11
     = (Json 400 (Failure ''Name, code, and count are required''), [])
   \<and> status (fst (POST [] \<lparr> body_name = Some ''Widget'', body_code = Some ''W-1'',
                             body_count = Some (- 3), body_description = None \<rparr> sampleId 10 11)) = 200
   \<and> map doc_count (snd (POST [] \<lparr> body_name = Some ''Widget'', body_code = Some ''W-1'',
                             body_count = Some (- 3), body_description = None \<rparr> sampleId 10 11)) = [- 3]
   \<and> snd (handleSubmit trim_ascii
             \<lparr> formData = \<lparr> form_name = ''Widget'', form_code = ''W-1'',
                             form_count = 0, form_description = [] \<rparr>,
               errors = [] \<rparr>) = None
   \<and> ''count'' \<in> set (errors (fst (handleSubmit trim_ascii
             \<lparr> formData = \<lparr> form_name = ''Widget'', form_code = ''W-1'',
                             form_count = 0, form_description = [] \<rparr>,
               errors = [] \<rparr>)))"
  using create_validation
          [where b = "\<lparr> body_name = Some ''Widget'', body_code = Some ''W-1'', body_count = None,
                 body_description = None \<rparr>" and docs = "[]" and oid = sampleId and ?t1.0 = 10
             and ?t2.0 = 11 and c = "- 3" and trim = trim_ascii
             and f = "\<lparr> formData = \<lparr> form_name = ''Widget'', form_code = ''W-1'',
                                form_count = 0, form_description = [] \<rparr>, errors = [] \<rparr>"]
        create_validation
          [where b = "\<lparr> body_name = Some ''Widget'', body_code = Some ''W-1'',
                 body_count = Some (- 3), body_description = None \<rparr>" and docs = "[]"
             and oid = sampleId and ?t1.0 = 10 and ?t2.0 = 11 and c = "- 3" and trim = trim_ascii
             and f = "\<lparr> formData = \<lparr> form_name = ''Widget'', form_code = ''W-1'',
                                form_count = 0, form_description = [] \<rparr>, errors = [] \<rparr>"]
  by (simp add: falsy_def findOne_code_def findOne_id_def)

subsection \<open>The PUT handler\<close>

lemma dollar_set_twice: "dollar_set u2 (dollar_set u1 d) = dollar_set u2 d"
  by (simp add: dollar_set_def)

lemma doc_id_dollar_set: "doc_id (dollar_set u d) = doc_id d"
  by (simp add: dollar_set_def)

lemma findOneAndUpdate_twice:
  "snd (findOneAndUpdate (snd (findOneAndUpdate ds oid u1)) oid u2) = snd (findOneAndUpdate ds oid u2)"
  by (induction ds) (auto simp add: dollar_set_twice doc_id_dollar_set split: prod.splits)

lemma findOneAndUpdate_fst_twice:
  "fst (findOneAndUpdate (snd (findOneAndUpdate ds oid u1)) oid u2) = fst (findOneAndUpdate ds oid u2)"
  by (induction ds) (auto simp add: dollar_set_twice doc_id_dollar_set split: prod.splits)

lemma findOneAndUpdate_ids:
  "map doc_id (snd (findOneAndUpdate ds oid u)) = map doc_id ds"
  by (induction ds) (auto simp add: doc_id_dollar_set split: prod.splits)

lemma findOneAndUpdate_Some:
  "fst (findOneAndUpdate ds oid u) = Some r \<Longrightarrow>
     doc_id r = Some oid \<and> doc_createdAt r = doc_createdAt u \<and> doc_updatedAt r = doc_updatedAt u
     \<and> doc_name r = doc_name u \<and> doc_code r = doc_code u \<and> doc_count r = doc_count u
     \<and> doc_description r = doc_description u
     \<and> findOne_id (snd (findOneAndUpdate ds oid u)) oid = Some r"
  by (induction ds) (auto simp add: dollar_set_def findOne_id_def split: prod.splits if_splits)

lemma findOneAndUpdate_None_iff:
  "fst (findOneAndUpdate ds oid u) = None \<longleftrightarrow> findOne_id ds oid = None"
  by (induction ds) (auto simp add: findOne_id_def split: prod.splits)

lemma findOneAndUpdate_None_same:
  "fst (findOneAndUpdate ds oid u) = None \<Longrightarrow> snd (findOneAndUpdate ds oid u) = ds"
  by (induction ds) (auto split: prod.splits if_splits)


lemma findOneAndUpdate_snd_Cons:
  "snd (findOneAndUpdate (d # ds) oid u) =
     (if doc_id d = Some oid then dollar_set u d # ds else d # snd (findOneAndUpdate ds oid u))"
  by (simp split: prod.splits)

lemma findOneAndUpdate_fst_Cons:
  "fst (findOneAndUpdate (d # ds) oid u) =
     (if doc_id d = Some oid then Some (dollar_set u d) else fst (findOneAndUpdate ds oid u))"
  by (simp split: prod.splits)

lemma sameApartFromTimes_refl: "sameApartFromTimes d d"
  by (simp add: sameApartFromTimes_def)

lemma findOneAndUpdate_times:
  assumes "doc_name u = doc_name v" "doc_code u = doc_code v" "doc_count u = doc_count v"
    "doc_description u = doc_description v"
  shows "list_all2 sameApartFromTimes (snd (findOneAndUpdate ds oid u)) (snd (findOneAndUpdate ds oid v))"
proof (induction ds)
  case Nil
  show ?case by simp
next
  case (Cons d ds)
  show ?case
  proof (cases "doc_id d = Some oid")
    case True
    have "sameApartFromTimes (dollar_set u d) (dollar_set v d)"
      using assms by (simp add: sameApartFromTimes_def dollar_set_def)
    then show ?thesis
      using True by (simp add: list_all2_refl sameApartFromTimes_refl)
  next
    case False
    then show ?thesis
      using Cons.IH
      by (simp del: findOneAndUpdate.simps add: sameApartFromTimes_refl findOneAndUpdate_snd_Cons)
  qed
qed

lemma PUT_snd:
  "snd (PUT docs i b t1 t2 t3) =
     (if ObjectId_isValid i
      then snd (findOneAndUpdate docs (new_ObjectId i)
                 \<lparr> doc_id = None, doc_name = name b, doc_code = code b, doc_count = count b,
                   doc_description = description b, doc_createdAt = t1, doc_updatedAt = t3 \<rparr>)
      else docs)"
  by (simp add: PUT_def Let_def productToDocument_def split: prod.splits option.splits)


lemma PUT_fst:
  "fst (PUT docs i b t1 t2 t3) =
     (if \<not> ObjectId_isValid i then Json 400 (Failure ''Invalid product ID'')
      else (case fst (findOneAndUpdate docs (new_ObjectId i)
                 \<lparr> doc_id = None, doc_name = name b, doc_code = code b, doc_count = count b,
                   doc_description = description b, doc_createdAt = t1, doc_updatedAt = t3 \<rparr>) of
              None \<Rightarrow> Json 404 (Failure ''Product not found'')
            | Some r \<Rightarrow> Json 200 (Success \<lparr> name = name b, code = code b, count = count b,
                 description = description b, createdAt = Some t1, updatedAt = Some t3,
                 id_p = new_ObjectId i \<rparr>)))"
proof (cases "ObjectId_isValid i")
  case False
  then show ?thesis by (simp add: PUT_def)
next
  case True
  let ?u = "\<lparr> doc_id = None, doc_name = name b, doc_code = code b, doc_count = count b,
                   doc_description = description b, doc_createdAt = t1, doc_updatedAt = t3 \<rparr>"
  obtain r ds where res: "findOneAndUpdate docs (new_ObjectId i) ?u = (r, ds)"
    by (cases "findOneAndUpdate docs (new_ObjectId i) ?u")
  show ?thesis
  proof (cases r)
    case None
    then show ?thesis using True res by (simp add: PUT_def Let_def productToDocument_def)
  next
    case (Some d)
    then have "fst (findOneAndUpdate docs (new_ObjectId i) ?u) = Some d"
      using res by simp
    from findOneAndUpdate_Some [OF this]
    have "documentToProduct d = Some \<lparr> name = name b, code = code b, count = count b,
                 description = description b, createdAt = Some t1, updatedAt = Some t3,
                 id_p = new_ObjectId i \<rparr>"
      by (simp add: documentToProduct_def)
    then show ?thesis using True res Some by (simp add: PUT_def Let_def productToDocument_def)
  qed
qed


lemma sampleId_valid: "ObjectId_isValid sampleId \<and> new_ObjectId sampleId = sampleId"
  by (simp add: ObjectId_isValid_def sampleId_def isHexDigit_def new_ObjectId_def lowerHex_def)

lemma PUT_widget:
  "PUT [\<lparr> doc_id = Some sampleId, doc_name = ''Widget'', doc_code = ''W-1'', doc_count = 10,
          doc_description = None, doc_createdAt = 10, doc_updatedAt = 11 \<rparr>]
       sampleId (widget\<lparr> count := 3 \<rparr>) t1 t2 t3 =
     (Json 200 (Success \<lparr> name = ''Widget'', code = ''W-1'', count = 3, description = None,
                          createdAt = Some t1, updatedAt = Some t3, id_p = sampleId \<rparr>),
      [\<lparr> doc_id = Some sampleId, doc_name = ''Widget'', doc_code = ''W-1'', doc_count = 3,
         doc_description = None, doc_createdAt = t1, doc_updatedAt = t3 \<rparr>])"
  by (rule prod_eqI) (simp_all add: PUT_fst PUT_snd sampleId_valid widget_def dollar_set_def)

subsection \<open>Applying an update twice\<close>

text \<open>
  Claim C4, as stated, fails: after the same patch is applied a second time, at a later
  time, the stored product differs from the one after the first application in
  \<open>createdAt\<close> too, not only in \<open>updatedAt\<close>.
\<close>

theorem PUT_twice_createdAt_counterexample:
  "map (\<lambda>d. d\<lparr> doc_updatedAt := 0 \<rparr>)
     (snd (PUT (snd (PUT [\<lparr> doc_id = Some sampleId, doc_name = ''Widget'', doc_code = ''W-1'',
                            doc_count = 10, doc_description = None, doc_createdAt = 10,
                            doc_updatedAt = 11 \<rparr>]
                         sampleId (widget\<lparr> count := 3 \<rparr>) 20 21 22))
               sampleId (widget\<lparr> count := 3 \<rparr>) 30 31 32))
   \<noteq> map (\<lambda>d. d\<lparr> doc_updatedAt := 0 \<rparr>)
       (snd (PUT [\<lparr> doc_id = Some sampleId, doc_name = ''Widget'', doc_code = ''W-1'',
                    doc_count = 10, doc_description = None, doc_createdAt = 10,
                    doc_updatedAt = 11 \<rparr>]
                 sampleId (widget\<lparr> count := 3 \<rparr>) 20 21 22))"
  by (simp add: PUT_snd sampleId_valid dollar_set_def widget_def)

text \<open>
  Claim C4 (amended): for every collection, identifier and patch, applying the same patch
  twice through PUT gives the response and the stored collection of applying it once, at
  the clock readings of the second request; against the collection left by the first
  application, every stored document keeps its \<open>_id\<close>, \<open>name\<close>, \<open>code\<close>, \<open>count\<close> and
  \<open>description\<close>, so the two differ at most in \<open>createdAt\<close> and \<open>updatedAt\<close>, which
  both advance.
\<close>

theorem edit_idempotent_apart_from_times:
  "PUT (snd (PUT docs i b t1 t2 t3)) i b t4 t5 t6 = PUT docs i b t4 t5 t6
   \<and> list_all2 sameApartFromTimes
        (snd (PUT (snd (PUT docs i b t1 t2 t3)) i b t4 t5 t6)) (snd (PUT docs i b t1 t2 t3))"
proof -
  have whole: "PUT (snd (PUT docs i b t1 t2 t3)) i b t4 t5 t6 = PUT docs i b t4 t5 t6"
    by (rule prod_eqI)
       (simp_all add: PUT_fst PUT_snd findOneAndUpdate_twice findOneAndUpdate_fst_twice)
  have "list_all2 sameApartFromTimes (snd (PUT docs i b t4 t5 t6)) (snd (PUT docs i b t1 t2 t3))"
    by (simp add: PUT_snd findOneAndUpdate_times list_all2_refl sameApartFromTimes_refl)
  with whole show ?thesis by simp
qed

subsection \<open>What an update does to createdAt\<close>

text \<open>
  Claim C10: on every successful PUT, the conversion to the storage shape gets a product
  without \<open>createdAt\<close> and sets it to its clock reading \<open>t1\<close>; the stored document
  addressed and the product returned carry that \<open>createdAt\<close>, whatever was stored before,
  while the identifiers of the stored documents, the addressed one included, stay as they were.
\<close>

theorem PUT_overwrites_createdAt:
  assumes "PUT docs i b t1 t2 t3 = (Json 200 (Success p), docs')"
  shows "createdAt p = Some t1 \<and> id_p p = new_ObjectId i
     \<and> (\<exists>d. findOne_id docs' (new_ObjectId i) = Some d \<and> doc_createdAt d = t1)
     \<and> map doc_id docs' = map doc_id docs
     \<and> doc_createdAt (productToDocument
          \<lparr> name = name b, code = code b, count = count b, description = description b,
            createdAt = None, updatedAt = None \<rparr> t1 t2) = t1"
proof -
  let ?u = "\<lparr> doc_id = None, doc_name = name b, doc_code = code b, doc_count = count b,
              doc_description = description b, doc_createdAt = t1, doc_updatedAt = t3 \<rparr>"
  have valid: "ObjectId_isValid i"
    using assms PUT_fst [of docs i b t1 t2 t3] by (auto split: if_splits)
  have docs': "docs' = snd (findOneAndUpdate docs (new_ObjectId i) ?u)"
    using assms PUT_snd [of docs i b t1 t2 t3] valid by simp
  obtain d where d: "fst (findOneAndUpdate docs (new_ObjectId i) ?u) = Some d"
    using assms PUT_fst [of docs i b t1 t2 t3] valid
    by (cases "fst (findOneAndUpdate docs (new_ObjectId i) ?u)") auto
  have p: "p = \<lparr> name = name b, code = code b, count = count b,
                 description = description b, createdAt = Some t1, updatedAt = Some t3,
                 id_p = new_ObjectId i \<rparr>"
    using assms PUT_fst [of docs i b t1 t2 t3] valid d by simp
  have "findOne_id docs' (new_ObjectId i) = Some d \<and> doc_createdAt d = t1"
    using findOneAndUpdate_Some [OF d] docs' by simp
  moreover have "map doc_id docs' = map doc_id docs"
    using docs' by (simp add: findOneAndUpdate_ids)
  ultimately show ?thesis
    using p by (auto simp add: productToDocument_def)
qed

theorem PUT_overwrites_createdAt_witness:
  "map doc_createdAt [\<lparr> doc_id = Some sampleId, doc_name = ''Widget'', doc_code = ''W-1'',
          doc_count = 10, doc_description = None, doc_createdAt = 10, doc_updatedAt = 11 \<rparr>] = [10]
   \<and> (\<exists>d. findOne_id
            (snd (PUT [\<lparr> doc_id = Some sampleId, doc_name = ''Widget'', doc_code = ''W-1'',
                         doc_count = 10, doc_description = None, doc_createdAt = 10,
                         doc_updatedAt = 11 \<rparr>]
                      sampleId (widget\<lparr> count := 3 \<rparr>) 20 21 22)) sampleId = Some d
          \<and> doc_createdAt d = 20)
   \<and> map doc_id (snd (PUT [\<lparr> doc_id = Some sampleId, doc_name = ''Widget'', doc_code = ''W-1'',
                         doc_count = 10, doc_description = None, doc_createdAt = 10,
                         doc_updatedAt = 11 \<rparr>]
                      sampleId (widget\<lparr> count := 3 \<rparr>) 20 21 22)) = [Some sampleId]"
  using PUT_overwrites_createdAt [OF PUT_widget [of 20 21 22]]
  by (simp add: PUT_widget sampleId_valid)

subsection \<open>Which counts the interface submits\<close>

text \<open>
  Claim C2, as stated, fails in its first half: no commit of the full-row edit and no
  commit of the inline count edit passes an update with count 0 to the update operation.
  With 0 typed into the count input, either commit passes nothing on.
\<close>

theorem no_edit_submits_zero_counterexample:
  "\<not> (\<exists>trim st i r. snd (saveEdit trim st i) = Some r \<and> count (snd r) = 0)
   \<and> \<not> (\<exists>prods st i r. snd (saveCountEdit prods st i) = Some r \<and> count (snd r) = 0)
   \<and> snd (saveEdit trim_ascii
             (handleEditInputChange_count (startEditing initialList widgetProduct) (Some 0))
             sampleId) = None
   \<and> snd (saveCountEdit [widgetProduct] (setTempCount (startCountEdit initialList widgetProduct) (Some 0))
             sampleId) = None"
  by (auto simp add: saveEdit_def saveCountEdit_def handleEditInputChange_count_def setTempCount_def
        parseInt_or_0_def split: if_splits option.splits)

text \<open>
  Claim C2 (amended): stock count 0 is reachable neither by an edit nor by creation:
  an update passed on by the commit of the full-row edit or of the inline count edit has
  a count greater than 0 (and is addressed to the row committed), and a product passed
  on by the creation form has a count greater than 0.
\<close>

theorem submitted_counts_positive:
  "(snd (saveEdit trim st i) = Some r \<longrightarrow> 0 < count (snd r) \<and> fst r = i)
   \<and> (snd (saveCountEdit prods st' i') = Some r' \<longrightarrow> 0 < count (snd r') \<and> fst r' = i')
   \<and> (snd (handleSubmit trim' f) = Some q \<longrightarrow> 0 < count q)"
  by (auto simp add: saveEdit_def saveCountEdit_def handleSubmit_def Let_def
        split: if_splits option.splits)

lemma trim_ascii_Widget:
  "trim_ascii ''Widget'' = ''Widget'' \<and> trim_ascii ''W-1'' = ''W-1'' \<and> trim_ascii [] = []"
  by (simp add: trim_ascii_def isSpace_def)

theorem submitted_counts_positive_witness:
  "snd (saveEdit trim_ascii
          (handleEditInputChange_count (startEditing initialList widgetProduct) (Some 4)) sampleId)
     = Some (sampleId, \<lparr> name = ''Widget'', code = ''W-1'', count = 4, description = None,
                          createdAt = None, updatedAt = None \<rparr>)
   \<and> snd (saveCountEdit [widgetProduct] (setTempCount (startCountEdit initialList widgetProduct) (Some 4))
             sampleId)
     = Some (sampleId, \<lparr> name = ''Widget'', code = ''W-1'', count = 4, description = None,
                          createdAt = None, updatedAt = None \<rparr>)
   \<and> snd (handleSubmit trim_ascii
             \<lparr> formData = \<lparr> form_name = ''Widget'', form_code = ''W-1'',
                             form_count = 4, form_description = [] \<rparr>,
               errors = [] \<rparr>)
     = Some \<lparr> name = ''Widget'', code = ''W-1'', count = 4, description = None,
              createdAt = None, updatedAt = None \<rparr>
   \<and> (0::int) < 4"
proof -
  let ?patch = "\<lparr> name = ''Widget'', code = ''W-1'', count = 4, description = None,
                  createdAt = None, updatedAt = None \<rparr>"
  let ?st = "handleEditInputChange_count (startEditing initialList widgetProduct) (Some 4)"
  let ?st' = "setTempCount (startCountEdit initialList widgetProduct) (Some 4)"
  let ?f = "\<lparr> formData = \<lparr> form_name = ''Widget'', form_code = ''W-1'',
                             form_count = 4, form_description = [] \<rparr>, errors = [] \<rparr>"
  have e1: "snd (saveEdit trim_ascii ?st sampleId) = Some (sampleId, ?patch)"
    by (simp add: saveEdit_def handleEditInputChange_count_def startEditing_def widgetProduct_def
          parseInt_or_0_def trim_ascii_Widget trim_or_undefined_def)
  have e2: "snd (saveCountEdit [widgetProduct] ?st' sampleId) = Some (sampleId, ?patch)"
    by (simp add: saveCountEdit_def setTempCount_def startCountEdit_def widgetProduct_def
          parseInt_or_0_def)
  have e3: "snd (handleSubmit trim_ascii ?f) = Some ?patch"
    by (simp add: handleSubmit_def trim_ascii_Widget trim_or_undefined_def)
  show ?thesis
    using submitted_counts_positive
            [where trim = trim_ascii and st = ?st and i = sampleId and r = "(sampleId, ?patch)"
               and prods = "[widgetProduct]" and st' = ?st' and i' = sampleId
               and r' = "(sampleId, ?patch)" and trim' = trim_ascii and f = ?f and q = ?patch]
          e1 e2 e3
    by simp
qed

subsection \<open>Sorting and pagination\<close>

lemma length_insert_by: "length (insert_by cmp x ys) = Suc (length ys)"
  by (induction ys) simp_all

lemma length_sort_by: "length (sort_by cmp xs) = length xs"
  by (induction xs) (simp_all add: sort_by_def length_insert_by)

lemma length_sortedProducts: "length (sortedProducts lc prods st) = length prods"
  by (simp add: sortedProducts_def length_sort_by)

lemma Math_ceil_div_pos:
  assumes "0 < k"
  shows "Math_ceil_div n k = Finite \<lceil>real n / real_of_int k\<rceil>"
proof -
  have "\<lceil>real_of_int (int n) / real_of_int k\<rceil> = - ((- int n) div k)"
    by (rule ceiling_divide_eq_div)
  then show ?thesis using assms by (simp add: Math_ceil_div_def)
qed

lemma ceil_div_bounds:
  assumes "0 < (k::int)"
  shows "(- ((- n) div k) - 1) * k < n \<and> n \<le> - ((- n) div k) * k"
proof -
  define q where "q = (- n) div k"
  define m where "m = (- n) mod k"
  have e: "k * q + m = - n"
    unfolding q_def m_def by simp
  have m: "0 \<le> m \<and> m < k"
    unfolding m_def using assms by simp
  have "(- q - 1) * k = - (k * q) - k"
    by (simp add: algebra_simps)
  moreover have "- q * k = - (k * q)"
    by simp
  ultimately show ?thesis
    unfolding q_def [symmetric] using e m by linarith
qed

lemma slice_window:
  assumes "0 \<le> s" "0 \<le> k"
  shows "slice xs s (s + k) = take (nat k) (drop (nat s) xs)"
proof (cases "s \<le> int (length xs)")
  case True
  show ?thesis
  proof (cases "s + k \<le> int (length xs)")
    case True
    then show ?thesis using assms \<open>s \<le> int (length xs)\<close>
      by (simp add: slice_def Let_def min_def)
  next
    case False
    then have "take (nat (int (length xs) - s)) (drop (nat s) xs) = take (nat k) (drop (nat s) xs)"
      using assms True by simp
    then show ?thesis using assms True False
      by (simp add: slice_def Let_def min_def)
  qed
next
  case False
  then show ?thesis using assms
    by (simp add: slice_def Let_def min_def)
qed


lemma totalPages_eq: "totalPages lc prods st = Math_ceil_div (length prods) (itemsPerPage st)"
  by (simp add: totalPages_def length_sortedProducts)

lemma paginatedProducts_window:
  assumes "1 \<le> itemsPerPage st" and "1 \<le> currentPage st"
  shows "paginatedProducts lc prods st =
           take (nat (itemsPerPage st))
             (drop (nat ((currentPage st - 1) * itemsPerPage st)) (sortedProducts lc prods st))"
  using assms by (simp add: paginatedProducts_def endIndex_def startIndex_def slice_window)

lemma last_page_length:
  assumes "1 \<le> itemsPerPage st" and "1 \<le> currentPage st" and "prods \<noteq> []"
    and "totalPages lc prods st = Finite (currentPage st)"
  shows "int (length (paginatedProducts lc prods st)) =
           int (length prods) - (currentPage st - 1) * itemsPerPage st
         \<and> 1 \<le> length (paginatedProducts lc prods st)
         \<and> int (length (paginatedProducts lc prods st)) \<le> itemsPerPage st"
proof -
  define K where "K = itemsPerPage st"
  define p where "p = currentPage st"
  define N where "N = int (length prods)"
  have K: "0 < K" using assms(1) K_def by simp
  have p: "p = - ((- N) div K)"
    using assms(4) K unfolding totalPages_eq Math_ceil_div_def K_def p_def N_def by simp
  have b: "(p - 1) * K < N \<and> N \<le> p * K"
    using ceil_div_bounds [OF K, of N] p by simp
  have s: "0 \<le> (p - 1) * K"
    using K assms(2) p_def by simp
  have "length (paginatedProducts lc prods st) = min (nat K) (length prods - nat ((p - 1) * K))"
    using paginatedProducts_window [OF assms(1,2)]
    by (simp add: K_def p_def length_sortedProducts min.commute)
  moreover have "N - (p - 1) * K \<le> K"
    using b by (simp add: algebra_simps)
  ultimately have "int (length (paginatedProducts lc prods st)) = N - (p - 1) * K"
    using b s K unfolding N_def by (simp add: min_def nat_le_iff of_nat_diff)
  then show ?thesis
    using b \<open>N - (p - 1) * K \<le> K\<close> unfolding K_def p_def N_def by simp
qed

text \<open>
  Claim C8: for a page size \<open>K \<ge> 1\<close> and a page \<open>p \<ge> 1\<close>, the page displayed is the part
  of the sorted sequence from index \<open>(p - 1) * K\<close> up to, not including, \<open>p * K\<close>; the total
  page count is the ceiling of \<open>N / K\<close>; page 1 shows the first \<open>K\<close> items; and the last
  page of a collection that is not empty shows the remaining \<open>N - (p - 1) * K\<close> items,
  at least 1 and at most \<open>K\<close>.
\<close>

theorem pagination_window:
  assumes "1 \<le> itemsPerPage st" and "1 \<le> currentPage st"
  shows "paginatedProducts lc prods st =
           take (nat (itemsPerPage st))
             (drop (nat ((currentPage st - 1) * itemsPerPage st)) (sortedProducts lc prods st))
     \<and> startIndex st = (currentPage st - 1) * itemsPerPage st
     \<and> endIndex st = currentPage st * itemsPerPage st
     \<and> totalPages lc prods st = Finite \<lceil>real (length prods) / real_of_int (itemsPerPage st)\<rceil>
     \<and> (currentPage st = 1 \<longrightarrow>
          paginatedProducts lc prods st = take (nat (itemsPerPage st)) (sortedProducts lc prods st))
     \<and> (prods \<noteq> [] \<and> totalPages lc prods st = Finite (currentPage st) \<longrightarrow>
          int (length (paginatedProducts lc prods st)) =
            int (length prods) - (currentPage st - 1) * itemsPerPage st
          \<and> 1 \<le> length (paginatedProducts lc prods st)
          \<and> int (length (paginatedProducts lc prods st)) \<le> itemsPerPage st)"
proof -
  have w: "paginatedProducts lc prods st =
           take (nat (itemsPerPage st))
             (drop (nat ((currentPage st - 1) * itemsPerPage st)) (sortedProducts lc prods st))"
    using assms by (rule paginatedProducts_window)
  have i: "startIndex st = (currentPage st - 1) * itemsPerPage st
     \<and> endIndex st = currentPage st * itemsPerPage st"
    by (simp add: startIndex_def endIndex_def algebra_simps)
  have t: "totalPages lc prods st = Finite \<lceil>real (length prods) / real_of_int (itemsPerPage st)\<rceil>"
    using assms(1) by (simp add: totalPages_eq Math_ceil_div_pos)
  have f: "currentPage st = 1 \<longrightarrow>
          paginatedProducts lc prods st = take (nat (itemsPerPage st)) (sortedProducts lc prods st)"
    using w by simp
  have l: "prods \<noteq> [] \<and> totalPages lc prods st = Finite (currentPage st) \<longrightarrow>
          int (length (paginatedProducts lc prods st)) =
            int (length prods) - (currentPage st - 1) * itemsPerPage st
          \<and> 1 \<le> length (paginatedProducts lc prods st)
          \<and> int (length (paginatedProducts lc prods st)) \<le> itemsPerPage st"
    using last_page_length [OF assms] by blast
  show ?thesis using w i t f l by blast
qed


lemma sortedProducts_five: "sortedProducts noOrder fiveProducts (initialList\<lparr> itemsPerPage := 2, currentPage := p \<rparr>) = fiveProducts"
  by (simp add: sortedProducts_def sort_by_def fiveProducts_def compareProducts_def initialList_def noOrder_def)

theorem pagination_window_witness:
  "paginatedProducts noOrder fiveProducts (initialList\<lparr> itemsPerPage := 2, currentPage := 1 \<rparr>)
     = [widgetProduct\<lparr> count := 1 \<rparr>, widgetProduct\<lparr> count := 2 \<rparr>]
   \<and> paginatedProducts noOrder fiveProducts (initialList\<lparr> itemsPerPage := 2, currentPage := 3 \<rparr>)
     = [widgetProduct\<lparr> count := 5 \<rparr>]
   \<and> totalPages noOrder fiveProducts (initialList\<lparr> itemsPerPage := 2, currentPage := 3 \<rparr>) = Finite 3"
proof -
  have five: "fiveProducts = [widgetProduct\<lparr> count := 1 \<rparr>, widgetProduct\<lparr> count := 2 \<rparr>,
      widgetProduct\<lparr> count := 3 \<rparr>, widgetProduct\<lparr> count := 4 \<rparr>, widgetProduct\<lparr> count := 5 \<rparr>]"
    by (simp add: fiveProducts_def)
  have len: "length fiveProducts = 5"
    by (simp add: fiveProducts_def)
  have c: "\<lceil>(5::real) / 2\<rceil> = 3"
    by (simp add: ceiling_eq_iff)
  have k: "1 \<le> itemsPerPage (initialList\<lparr> itemsPerPage := 2, currentPage := 1 \<rparr>)
        \<and> 1 \<le> itemsPerPage (initialList\<lparr> itemsPerPage := 2, currentPage := 3 \<rparr>)"
    by simp
  have p: "1 \<le> currentPage (initialList\<lparr> itemsPerPage := 2, currentPage := 1 \<rparr>)
        \<and> 1 \<le> currentPage (initialList\<lparr> itemsPerPage := 2, currentPage := 3 \<rparr>)"
    by simp
  show ?thesis
    using pagination_window [of "initialList\<lparr> itemsPerPage := 2, currentPage := 1 \<rparr>" noOrder fiveProducts]
          pagination_window [of "initialList\<lparr> itemsPerPage := 2, currentPage := 3 \<rparr>" noOrder fiveProducts]
          k p
    by (simp add: sortedProducts_five len c) (simp add: five)
qed

subsection \<open>Page navigation\<close>

lemma pageNumbers_in_range:
  assumes "1 \<le> t" and "n \<in> set (pageNumbers (Finite t) current)"
  shows "1 \<le> n \<and> n \<le> t"
proof -
  obtain i where i: "i < nat (min t 7)" and n: "n = pageNumber (Finite t) current (int i)"
    using assms(2) by (auto simp add: pageNumbers_def)
  have "int i < min t 7"
    using i by linarith
  then have "int i < t \<and> int i < 7"
    by simp
  then show ?thesis
    unfolding n pageNumber_def by (simp split: if_splits)
qed

lemma clickControl_in_range:
  assumes "1 \<le> t" and "1 \<le> currentPage st" and "currentPage st \<le> t"
  shows "1 \<le> currentPage (clickControl (Finite t) st control)
     \<and> currentPage (clickControl (Finite t) st control) \<le> t
     \<and> itemsPerPage (clickControl (Finite t) st control) = itemsPerPage st"
proof (cases control)
  case PreviousButton
  then show ?thesis using assms by (simp add: clickControl_def previousPage_def)
next
  case NextButton
  then show ?thesis using assms by (simp add: clickControl_def nextPage_def)
next
  case (PageButton i)
  show ?thesis
  proof (cases "i < length (pageNumbers (Finite t) (currentPage st))")
    case True
    then have "pageNumbers (Finite t) (currentPage st) ! i \<in> set (pageNumbers (Finite t) (currentPage st))"
      by simp
    from pageNumbers_in_range [OF assms(1) this] show ?thesis
      using PageButton True by (simp add: clickControl_def)
  next
    case False
    then show ?thesis using PageButton assms by (simp add: clickControl_def)
  qed
qed

lemma navigate_in_range:
  assumes "1 \<le> t" and "1 \<le> currentPage st" and "currentPage st \<le> t"
  shows "1 \<le> currentPage (navigate (Finite t) st controls)
     \<and> currentPage (navigate (Finite t) st controls) \<le> t
     \<and> itemsPerPage (navigate (Finite t) st controls) = itemsPerPage st"
  using assms(2,3)
proof (induction controls arbitrary: st)
  case Nil
  then show ?case by (simp add: navigate_def)
next
  case (Cons c cs)
  have step: "1 \<le> currentPage (clickControl (Finite t) st c)
     \<and> currentPage (clickControl (Finite t) st c) \<le> t
     \<and> itemsPerPage (clickControl (Finite t) st c) = itemsPerPage st"
    using assms(1) Cons.prems by (rule clickControl_in_range)
  have "navigate (Finite t) st (c # cs) = navigate (Finite t) (clickControl (Finite t) st c) cs"
    by (simp add: navigate_def)
  then show ?case
    using Cons.IH [of "clickControl (Finite t) st c"] step by simp
qed

text \<open>
  Claim C3: the pagination controls are rendered when the collection has a product, and
  \<open>itemsPerPage\<close> is 10 from the start (at least 1). Then the total page count is an
  integer \<open>t \<ge> 1\<close> that no navigation changes, and every navigation control keeps the
  current page in \<open>[1, t]\<close>: from a current page in \<open>[1, t]\<close>, the previous button (which
  clamps at 1), the next button (which clamps at \<open>t\<close>), every numbered button, and so
  every sequence of clicks on them, lead to a page in \<open>[1, t]\<close>. Changing \<open>itemsPerPage\<close>
  sets the current page to 1, which is in range for the new page count when the new
  \<open>itemsPerPage\<close> is at least 1.
\<close>

theorem navigation_keeps_page_in_range:
  assumes "prods \<noteq> []" and "1 \<le> itemsPerPage st"
  shows "\<exists>t. totalPages lc prods st = Finite t \<and> 1 \<le> t
      \<and> (1 \<le> currentPage st \<and> currentPage st \<le> t \<longrightarrow>
           1 \<le> currentPage (previousPage st) \<and> currentPage (previousPage st) \<le> t
           \<and> 1 \<le> currentPage (nextPage (Finite t) st) \<and> currentPage (nextPage (Finite t) st) \<le> t
           \<and> 1 \<le> currentPage (clickControl (Finite t) st control)
           \<and> currentPage (clickControl (Finite t) st control) \<le> t
           \<and> totalPages lc prods (clickControl (Finite t) st control) = Finite t
           \<and> 1 \<le> currentPage (navigate (Finite t) st controls)
           \<and> currentPage (navigate (Finite t) st controls) \<le> t
           \<and> totalPages lc prods (navigate (Finite t) st controls) = Finite t)
      \<and> currentPage (previousPage st) = max (currentPage st - 1) 1
      \<and> currentPage (nextPage (Finite t) st) = min (currentPage st + 1) t
      \<and> (\<forall>n \<in> set (pageNumbers (Finite t) (currentPage st)). 1 \<le> n \<and> n \<le> t)
      \<and> totalPages lc prods (previousPage st) = Finite t
      \<and> totalPages lc prods (nextPage (Finite t) st) = Finite t
      \<and> currentPage (handleItemsPerPageChange st k) = 1
      \<and> itemsPerPage (handleItemsPerPageChange st k) = k
      \<and> (1 \<le> k \<longrightarrow> (\<exists>t'. totalPages lc prods (handleItemsPerPageChange st k) = Finite t' \<and> 1 \<le> t'))"
proof -
  have pos: "1 \<le> - ((- int (length prods)) div K)" if K: "1 \<le> K" for K :: int
  proof -
    define q where "q = - ((- int (length prods)) div K)"
    have "0 < K" using K by simp
    from ceil_div_bounds [OF this, of "int (length prods)"]
    have "int (length prods) \<le> q * K" unfolding q_def by simp
    moreover have "0 < int (length prods)" using assms(1) by simp
    ultimately have "0 < q * K" by linarith
    then have "0 < q"
      using \<open>0 < K\<close> by (rule zero_less_mult_pos2)
    then show ?thesis unfolding q_def by simp
  qed
  define t where "t = - ((- int (length prods)) div itemsPerPage st)"
  have t: "totalPages lc prods st = Finite t"
    using assms(2) by (simp add: totalPages_eq Math_ceil_div_def t_def)
  have t1: "1 \<le> t"
    unfolding t_def using assms(2) by (rule pos)
  have same_pages: "totalPages lc prods st' = Finite t" if "itemsPerPage st' = itemsPerPage st" for st'
    using t that by (simp add: totalPages_eq)
  have nav: "1 \<le> currentPage st \<and> currentPage st \<le> t \<longrightarrow>
           1 \<le> currentPage (previousPage st) \<and> currentPage (previousPage st) \<le> t
           \<and> 1 \<le> currentPage (nextPage (Finite t) st) \<and> currentPage (nextPage (Finite t) st) \<le> t
           \<and> 1 \<le> currentPage (clickControl (Finite t) st control)
           \<and> currentPage (clickControl (Finite t) st control) \<le> t
           \<and> totalPages lc prods (clickControl (Finite t) st control) = Finite t
           \<and> 1 \<le> currentPage (navigate (Finite t) st controls)
           \<and> currentPage (navigate (Finite t) st controls) \<le> t
           \<and> totalPages lc prods (navigate (Finite t) st controls) = Finite t"
  proof
    assume inv: "1 \<le> currentPage st \<and> currentPage st \<le> t"
    have pn: "1 \<le> currentPage (previousPage st) \<and> currentPage (previousPage st) \<le> t
           \<and> 1 \<le> currentPage (nextPage (Finite t) st) \<and> currentPage (nextPage (Finite t) st) \<le> t"
      using t1 inv by (simp add: previousPage_def nextPage_def)
    have c: "1 \<le> currentPage (clickControl (Finite t) st control)
     \<and> currentPage (clickControl (Finite t) st control) \<le> t
     \<and> itemsPerPage (clickControl (Finite t) st control) = itemsPerPage st"
      using t1 inv by (simp add: clickControl_in_range)
    have n: "1 \<le> currentPage (navigate (Finite t) st controls)
     \<and> currentPage (navigate (Finite t) st controls) \<le> t
     \<and> itemsPerPage (navigate (Finite t) st controls) = itemsPerPage st"
      using t1 inv by (simp add: navigate_in_range)
    show "1 \<le> currentPage (previousPage st) \<and> currentPage (previousPage st) \<le> t
           \<and> 1 \<le> currentPage (nextPage (Finite t) st) \<and> currentPage (nextPage (Finite t) st) \<le> t
           \<and> 1 \<le> currentPage (clickControl (Finite t) st control)
           \<and> currentPage (clickControl (Finite t) st control) \<le> t
           \<and> totalPages lc prods (clickControl (Finite t) st control) = Finite t
           \<and> 1 \<le> currentPage (navigate (Finite t) st controls)
           \<and> currentPage (navigate (Finite t) st controls) \<le> t
           \<and> totalPages lc prods (navigate (Finite t) st controls) = Finite t"
      using pn c n same_pages by simp
  qed
  have clamps: "currentPage (previousPage st) = max (currentPage st - 1) 1
      \<and> currentPage (nextPage (Finite t) st) = min (currentPage st + 1) t"
    by (simp add: previousPage_def nextPage_def)
  have nums: "\<forall>n \<in> set (pageNumbers (Finite t) (currentPage st)). 1 \<le> n \<and> n \<le> t"
    using pageNumbers_in_range [OF t1] by blast
  have same: "totalPages lc prods (previousPage st) = Finite t
      \<and> totalPages lc prods (nextPage (Finite t) st) = Finite t"
    using t by (simp add: totalPages_eq previousPage_def nextPage_def)
  have reset: "currentPage (handleItemsPerPageChange st k) = 1
      \<and> itemsPerPage (handleItemsPerPageChange st k) = k"
    by (simp add: handleItemsPerPageChange_def)
  have reset_ok: "1 \<le> k \<longrightarrow> (\<exists>t'. totalPages lc prods (handleItemsPerPageChange st k) = Finite t' \<and> 1 \<le> t')"
    using pos [of k] by (simp add: totalPages_eq Math_ceil_div_def handleItemsPerPageChange_def)
  show ?thesis
    using t t1 nav clamps nums same reset reset_ok by blast
qed

theorem navigation_keeps_page_in_range_witness:
  "totalPages noOrder fiveProducts (initialList\<lparr> itemsPerPage := 2, currentPage := 3 \<rparr>) = Finite 3
   \<and> currentPage (previousPage (initialList\<lparr> itemsPerPage := 2, currentPage := 3 \<rparr>)) = 2
   \<and> currentPage (nextPage (Finite 3) (initialList\<lparr> itemsPerPage := 2, currentPage := 3 \<rparr>)) = 3
   \<and> pageNumbers (Finite 3) 3 = [1, 2, 3]
   \<and> currentPage (clickControl (Finite 3) (initialList\<lparr> itemsPerPage := 2, currentPage := 3 \<rparr>)
                     (PageButton 0)) = 1
   \<and> currentPage (navigate (Finite 3) (initialList\<lparr> itemsPerPage := 2, currentPage := 3 \<rparr>)
                     [NextButton, NextButton, PreviousButton, PageButton 2, NextButton]) = 3
   \<and> currentPage (navigate (Finite 3) (initialList\<lparr> itemsPerPage := 2, currentPage := 3 \<rparr>)
                     [PageButton 0, PreviousButton, PreviousButton]) = 1
   \<and> currentPage (handleItemsPerPageChange (initialList\<lparr> itemsPerPage := 2, currentPage := 3 \<rparr>) 4) = 1"
proof -
  let ?st = "initialList\<lparr> itemsPerPage := 2, currentPage := 3 \<rparr>"
  have ne: "fiveProducts \<noteq> []"
    by (simp add: fiveProducts_def)
  have k: "1 \<le> itemsPerPage ?st"
    by simp
  have t: "totalPages noOrder fiveProducts ?st = Finite 3"
    by (simp add: totalPages_eq Math_ceil_div_def fiveProducts_def)
  have nums: "pageNumbers (Finite 3) c = [1, 2, 3]" for c
    by (simp add: pageNumbers_def pageNumber_def upt_rec)
  show ?thesis
    using navigation_keeps_page_in_range [OF ne k, of noOrder "PageButton 0"
            "[NextButton, NextButton, PreviousButton, PageButton 2, NextButton]" 4] t
    by (simp add: nums navigate_def clickControl_def previousPage_def nextPage_def
          handleItemsPerPageChange_def)
qed

subsection \<open>Deleting behind the confirmation gate\<close>

lemma pendingTarget_step:
  "pendingTarget (step a e) = (case e of DeleteClick product \<Rightarrow> Some (id_p product) | _ \<Rightarrow> None)"
  by (cases e)
     (auto simp add: step_def pendingTarget_def handleDeleteClick_def handleDeleteCancel_def
        handleDeleteConfirm_def closedModal_def split: prod.splits)

lemma deleteCalls_step:
  "deleteCalls (step a e) =
     deleteCalls a @ (case e of
                        ConfirmClick \<Rightarrow> (case pendingTarget a of Some i \<Rightarrow> [i] | None \<Rightarrow> [])
                      | _ \<Rightarrow> [])"
  by (cases e)
     (auto simp add: step_def pendingTarget_def handleDeleteConfirm_def split: prod.splits)

lemma deleteCalls_run:
  "deleteCalls (run a evs) = deleteCalls a @ confirmedIds (pendingTarget a) evs"
proof (induction evs arbitrary: a)
  case Nil
  show ?case by simp
next
  case (Cons e evs)
  show ?case
  proof (cases e)
    case (DeleteClick product)
    then show ?thesis
      by (simp add: Cons.IH deleteCalls_step pendingTarget_step)
  next
    case ConfirmClick
    then show ?thesis
      by (cases "pendingTarget a") (simp_all add: Cons.IH deleteCalls_step pendingTarget_step)
  next
    case CancelClick
    then show ?thesis
      by (simp add: Cons.IH deleteCalls_step pendingTarget_step)
  qed
qed

lemma step_unconfirmed:
  "ConfirmClick \<noteq> e \<Longrightarrow> home (step a e) = home a \<and> server (step a e) = server a"
  by (cases e) (simp_all add: step_def)

lemma run_unconfirmed:
  "ConfirmClick \<notin> set evs \<Longrightarrow> home (run a evs) = home a \<and> server (run a evs) = server a"
  by (induction evs arbitrary: a) (simp_all add: step_unconfirmed)

lemma confirmedIds_unconfirmed: "ConfirmClick \<notin> set evs \<Longrightarrow> confirmedIds pending evs = []"
  by (induction pending evs rule: confirmedIds.induct) simp_all

lemma confirmedIds_clicked:
  "i \<in> set (confirmedIds pending evs) \<Longrightarrow>
     pending = Some i \<or> (\<exists>product. DeleteClick product \<in> set evs \<and> id_p product = i)"
  by (induction pending evs rule: confirmedIds.induct) auto

lemma step_closed: "pendingTarget a = None \<Longrightarrow> step a ConfirmClick = a \<and> step a CancelClick = a"
  by (simp add: step_def pendingTarget_def split: if_splits)

lemma step_confirmed:
  assumes "pendingTarget a = Some i" and "fst (deleteProduct_service (server a) i) = Inr ()"
  shows "products (home (step a ConfirmClick)) = filter (\<lambda>p. id_p p \<noteq> i) (products (home a))
     \<and> error (home (step a ConfirmClick)) = error (home a)
     \<and> server (step a ConfirmClick) = snd (deleteProduct_service (server a) i)"
  using assms
  by (cases "deleteProduct_service (server a) i")
     (auto simp add: step_def pendingTarget_def handleDeleteConfirm_def deleteProduct_def
        split: if_splits)


lemma deleteProduct_service_widget:
  "deleteProduct_service [widgetDocument] sampleId = (Inr (), [])"
  by (simp add: deleteProduct_service_def DELETE_def sampleId_valid widgetDocument_def unwrap_def)

text \<open>
  Claim C9: the DELETE requests sent during a sequence of events are exactly the targets
  confirmed at the gate, in order: a request for an identifier is sent only by a confirm
  while the gate is open for that identifier, which a delete click on a product with
  that identifier opened. A sequence without a confirm (the delete was cancelled or never
  confirmed) sends no request and leaves the coordinator's state and the store as they
  were; a confirm while the gate is closed does nothing. A confirm with the gate open for
  \<open>i\<close> sends the request for \<open>i\<close>, and when the request succeeds the collection loses
  exactly the entries whose identifier is \<open>i\<close>.
\<close>

theorem delete_gated_by_confirmation:
  "deleteCalls (run a evs) = deleteCalls a @ confirmedIds (pendingTarget a) evs
   \<and> (ConfirmClick \<notin> set evs \<longrightarrow>
        deleteCalls (run a evs) = deleteCalls a \<and> home (run a evs) = home a
        \<and> server (run a evs) = server a)
   \<and> (pendingTarget a = None \<longrightarrow> step a ConfirmClick = a)
   \<and> (\<forall>i \<in> set (confirmedIds None evs). \<exists>product. DeleteClick product \<in> set evs \<and> id_p product = i)
   \<and> (pendingTarget a = Some i \<longrightarrow> deleteCalls (step a ConfirmClick) = deleteCalls a @ [i])
   \<and> (pendingTarget a = Some i \<and> fst (deleteProduct_service (server a) i) = Inr () \<longrightarrow>
        products (home (step a ConfirmClick)) = filter (\<lambda>p. id_p p \<noteq> i) (products (home a))
        \<and> error (home (step a ConfirmClick)) = error (home a))"
proof -
  have calls: "deleteCalls (run a evs) = deleteCalls a @ confirmedIds (pendingTarget a) evs"
    by (rule deleteCalls_run)
  have unconfirmed: "ConfirmClick \<notin> set evs \<longrightarrow>
        deleteCalls (run a evs) = deleteCalls a \<and> home (run a evs) = home a
        \<and> server (run a evs) = server a"
    by (simp add: calls confirmedIds_unconfirmed run_unconfirmed)
  have closed: "pendingTarget a = None \<longrightarrow> step a ConfirmClick = a"
    by (simp add: step_closed)
  have clicked: "\<forall>i \<in> set (confirmedIds None evs).
        \<exists>product. DeleteClick product \<in> set evs \<and> id_p product = i"
    using confirmedIds_clicked [of _ None evs] by blast
  have one: "pendingTarget a = Some i \<longrightarrow> deleteCalls (step a ConfirmClick) = deleteCalls a @ [i]"
    by (simp add: deleteCalls_step)
  have removed: "pendingTarget a = Some i \<and> fst (deleteProduct_service (server a) i) = Inr () \<longrightarrow>
        products (home (step a ConfirmClick)) = filter (\<lambda>p. id_p p \<noteq> i) (products (home a))
        \<and> error (home (step a ConfirmClick)) = error (home a)"
    using step_confirmed [of a i] by blast
  show ?thesis
    using calls unconfirmed closed clicked one removed by blast
qed

theorem delete_gated_by_confirmation_witness:
  "deleteCalls (run app0 [DeleteClick widgetProduct, CancelClick]) = []
   \<and> products (home (run app0 [DeleteClick widgetProduct, CancelClick])) = [widgetProduct]
   \<and> server (run app0 [DeleteClick widgetProduct, CancelClick]) = [widgetDocument]
   \<and> step app0 ConfirmClick = app0
   \<and> deleteCalls (run app0 [DeleteClick widgetProduct, ConfirmClick]) = [sampleId]
   \<and> products (home (run app0 [DeleteClick widgetProduct, ConfirmClick])) = []"
proof -
  let ?opened = "step app0 (DeleteClick widgetProduct)"
  have closed: "pendingTarget app0 = None"
    by (simp add: pendingTarget_def app0_def initialList_def closedModal_def)
  have opened: "pendingTarget ?opened = Some sampleId"
    by (simp add: pendingTarget_step widgetProduct_def)
  have kept: "home ?opened = home app0 \<and> server ?opened = server app0 \<and> deleteCalls ?opened = []"
    by (simp add: step_def app0_def)
  have served: "fst (deleteProduct_service (server ?opened) sampleId) = Inr ()"
    using kept by (simp add: app0_def deleteProduct_service_widget)
  have unconfirmed: "ConfirmClick \<notin> set [DeleteClick widgetProduct, CancelClick]"
    by simp
  show ?thesis
    using delete_gated_by_confirmation [of app0 "[DeleteClick widgetProduct, CancelClick]" sampleId]
          delete_gated_by_confirmation [of ?opened "[]" sampleId]
          closed opened kept served unconfirmed
    by (simp add: app0_def widgetProduct_def emptyHome_def)
qed

end
